theory Spec2Isabelle
  imports Complex_Main
begin

section \<open>Numeric vector and matrix primitives\<close>

text \<open>
  The layers of \<^verbatim>\<open>GLayer.cpp\<close> compute on \<^verbatim>\<open>double\<close> values held in \<^verbatim>\<open>GVec\<close> and
  \<^verbatim>\<open>GMatrix\<close> objects. A \<^verbatim>\<open>double\<close> is modelled as a \<^typ>\<open>real\<close> (rounding, infinities
  and NaN are outside the model), a \<^verbatim>\<open>size_t\<close> as a \<^typ>\<open>nat\<close>, a \<^verbatim>\<open>GVec\<close> as the list of
  its elements. A \<^verbatim>\<open>GMatrix\<close> knows its column count even when it has no row, so it is a
  record of the column count and the list of rows. Sizes are taken to stay below \<open>2 ^ 64\<close>;
  where the source subtracts from a size that may be 0, or casts between \<^verbatim>\<open>size_t\<close> and
  \<^verbatim>\<open>long long\<close>, the wrap-around is written out.

  \<^verbatim>\<open>GVec\<close>, \<^verbatim>\<open>GMatrix\<close> and the DOM classes are external to the layers. Their operations are
  modelled from their contract, and an access past the end of a buffer, which the source
  does not check in release builds, is the error \<open>OutOfRange\<close>. A method that can throw or
  run into such an access returns \<open>error + result\<close>; a method that writes a buffer of
  another object takes the buffer and returns it.
\<close>

type_synonym GVec = "real list"

record GMatrix =
  m_cols :: nat
  m_rows :: "GVec list"

datatype error =
    Ex_thrown string  \<comment> \<open>\<^verbatim>\<open>throw Ex(...)\<close> with its message\<close>
  | OutOfRange      \<comment> \<open>an element or row access past the end of a buffer\<close>
  | DivisionByZero  \<comment> \<open>an integer \<^verbatim>\<open>/\<close> or \<^verbatim>\<open>%\<close> by zero\<close>

definition GMatrix_default :: GMatrix where
  \<comment> \<open>Modelled from the spec: \<^verbatim>\<open>GMatrix::GMatrix()\<close>, the matrix type of the external
      numeric primitives; a default-constructed matrix has no row and no column.\<close>
  "GMatrix_default = \<lparr>m_cols = 0, m_rows = []\<rparr>"

definition GMatrix_rows :: "GMatrix \<Rightarrow> nat" where
  \<comment> \<open>Modelled from the spec: \<^verbatim>\<open>GMatrix::rows()\<close>.\<close>
  "GMatrix_rows M = length (m_rows M)"

definition GMatrix_cols :: "GMatrix \<Rightarrow> nat" where
  \<comment> \<open>Modelled from the spec: \<^verbatim>\<open>GMatrix::cols()\<close>.\<close>
  "GMatrix_cols M = m_cols M"

definition GMatrix_resize :: "nat \<Rightarrow> nat \<Rightarrow> GMatrix" where
  \<comment> \<open>Modelled from the spec: \<^verbatim>\<open>GMatrix::resize(rows, cols)\<close> and the constructor
      \<^verbatim>\<open>GMatrix(rows, cols)\<close>. The old content is dropped; the new elements are not
      initialised by the source and are 0 here.\<close>
  "GMatrix_resize r c = \<lparr>m_cols = c, m_rows = replicate r (replicate c 0)\<rparr>"

definition GMatrix_row :: "GMatrix \<Rightarrow> nat \<Rightarrow> error + GVec" where
  \<comment> \<open>Modelled from the spec: \<^verbatim>\<open>GMatrix::operator[]\<close> and \<^verbatim>\<open>GMatrix::row\<close>. A row index past
      the last row is undefined behaviour in the source and the error \<open>OutOfRange\<close> here.\<close>
  "GMatrix_row M i = (if i < length (m_rows M) then Inr (m_rows M ! i) else Inl OutOfRange)"

definition GMatrix_set_row :: "nat \<Rightarrow> GVec \<Rightarrow> GMatrix \<Rightarrow> GMatrix" where
  \<comment> \<open>Writing through the reference that \<^verbatim>\<open>GMatrix::operator[]\<close> returns.\<close>
  "GMatrix_set_row i v M = M\<lparr>m_rows := (m_rows M)[i := v]\<rparr>"

section \<open>Product and addition pooling\<close>

text \<open>
  \<^verbatim>\<open>GLayerProductPooling\<close> and \<^verbatim>\<open>GLayerAdditionPooling\<close> own one matrix, \<^verbatim>\<open>m_activation\<close>
  (row 0 the activation, row 1 the error); \<^verbatim>\<open>outputs()\<close> is its column count and
  \<^verbatim>\<open>inputs()\<close> twice that.
\<close>

record GLayerProductPooling =
  pp_activation :: GMatrix

record GLayerAdditionPooling =
  ap_activation :: GMatrix

definition GLayerProductPooling_outputs :: "GLayerProductPooling \<Rightarrow> nat" where
  "GLayerProductPooling_outputs L = GMatrix_cols (pp_activation L)"

definition GLayerProductPooling_inputs :: "GLayerProductPooling \<Rightarrow> nat" where
  "GLayerProductPooling_inputs L = GMatrix_cols (pp_activation L) * 2"

definition GLayerProductPooling_resize ::
  "nat \<Rightarrow> nat \<Rightarrow> GLayerProductPooling \<Rightarrow> error + GLayerProductPooling" where
  "GLayerProductPooling_resize inputCount outputCount L =
     (if outputCount * 2 \<noteq> inputCount then Inl (Ex_thrown ''inputCount must be 2*outputCount'')
      else if outputCount = GLayerProductPooling_outputs L then Inr L
      else Inr (L\<lparr>pp_activation := GMatrix_resize 2 outputCount\<rparr>))"

definition GLayerProductPooling_new :: "nat \<Rightarrow> error + GLayerProductPooling" where
  \<comment> \<open>The constructor \<^verbatim>\<open>GLayerProductPooling(size_t inps)\<close>; the members start
      default-constructed.\<close>
  "GLayerProductPooling_new inps =
     (if and inps 1 = 1 then Inl (Ex_thrown ''inputCount must be divisible by 2'')
      else GLayerProductPooling_resize inps (inps div 2) \<lparr>pp_activation = GMatrix_default\<rparr>)"

definition GLayerAdditionPooling_outputs :: "GLayerAdditionPooling \<Rightarrow> nat" where
  "GLayerAdditionPooling_outputs L = GMatrix_cols (ap_activation L)"

definition GLayerAdditionPooling_inputs :: "GLayerAdditionPooling \<Rightarrow> nat" where
  "GLayerAdditionPooling_inputs L = GMatrix_cols (ap_activation L) * 2"

definition GLayerAdditionPooling_resize ::
  "nat \<Rightarrow> nat \<Rightarrow> GLayerAdditionPooling \<Rightarrow> error + GLayerAdditionPooling" where
  "GLayerAdditionPooling_resize inputCount outputCount L =
     (if outputCount * 2 \<noteq> inputCount then Inl (Ex_thrown ''inputCount must be 2*outputCount'')
      else if outputCount = GLayerAdditionPooling_outputs L then Inr L
      else Inr (L\<lparr>ap_activation := GMatrix_resize 2 outputCount\<rparr>))"

definition GLayerAdditionPooling_new :: "nat \<Rightarrow> error + GLayerAdditionPooling" where
  \<comment> \<open>The constructor \<^verbatim>\<open>GLayerAdditionPooling(size_t inps)\<close>.\<close>
  "GLayerAdditionPooling_new inps =
     (if and inps 1 = 1 then Inl (Ex_thrown ''inputCount must be divisible by 2'')
      else GLayerAdditionPooling_resize inps (inps div 2) \<lparr>ap_activation = GMatrix_default\<rparr>)"

text \<open>
  \<^verbatim>\<open>GLayerAdditionPooling::backPropError\<close> reads this layer's error (row 1 of
  \<^verbatim>\<open>m_activation\<close>) and the upstream layer's activation, and writes the upstream layer's
  error buffer, two elements per output unit. The upstream buffers are passed and returned
  explicitly. An index past the end of a buffer gives \<open>OutOfRange\<close>.
\<close>

definition GVec_get :: "GVec \<Rightarrow> nat \<Rightarrow> error + real" where
  \<comment> \<open>Modelled from the spec: reading \<^verbatim>\<open>GVec::operator[]\<close>.\<close>
  "GVec_get v i = (if i < length v then Inr (v ! i) else Inl OutOfRange)"

definition GVec_set :: "nat \<Rightarrow> real \<Rightarrow> GVec \<Rightarrow> error + GVec" where
  \<comment> \<open>Modelled from the spec: writing through \<^verbatim>\<open>GVec::operator[]\<close>.\<close>
  "GVec_set i x v = (if i < length v then Inr (v[i := x]) else Inl OutOfRange)"

definition bind_result :: "error + 'a \<Rightarrow> ('a \<Rightarrow> error + 'b) \<Rightarrow> error + 'b" where
  "bind_result r f = (case r of Inl e \<Rightarrow> Inl e | Inr x \<Rightarrow> f x)"

fun for_each :: "nat list \<Rightarrow> (nat \<Rightarrow> 's \<Rightarrow> error + 's) \<Rightarrow> 's \<Rightarrow> error + 's" where
  \<comment> \<open>A counted loop whose body may fail: the first failure ends the loop.\<close>
  "for_each [] body s = Inr s"
| "for_each (i # is) body s = bind_result (body i s) (for_each is body)"

definition GLayerAdditionPooling_backPropError ::
  "GLayerAdditionPooling \<Rightarrow> GVec \<Rightarrow> GVec \<Rightarrow> error + GVec" where
  "GLayerAdditionPooling_backPropError L upStreamAct upStreamError =
     bind_result (GMatrix_row (ap_activation L) 1) (\<lambda>err.
       for_each [0..<GLayerAdditionPooling_outputs L] (\<lambda>i ue.
         bind_result (GVec_get err i) (\<lambda>e.
         bind_result (GVec_get upStreamAct (2 * i + 1)) (\<lambda>a1.
         bind_result (GVec_set (2 * i) (e + a1) ue) (\<lambda>ue.
         bind_result (GVec_get upStreamAct (2 * i)) (\<lambda>a0.
         GVec_set (2 * i + 1) (e + a0) ue))))) upStreamError)"

section \<open>The fully connected layer\<close>

text \<open>
  \<^verbatim>\<open>GLayerLinear\<close> owns \<^verbatim>\<open>m_weights\<close>, an (inputs+1)-by-outputs matrix whose last row is the
  bias, and \<^verbatim>\<open>m_activation\<close> (row 0 the activation, row 1 the error).
\<close>

definition GVec_addScaled :: "real \<Rightarrow> GVec \<Rightarrow> GVec \<Rightarrow> error + GVec" where
  \<comment> \<open>Modelled from the spec: \<^verbatim>\<open>this.addScaled(scalar, that)\<close>, the scaled addition of the
      external vector type: \<^verbatim>\<open>this[i] += scalar * that[i]\<close> for every index of
      \<^verbatim>\<open>this\<close>. The result is the new value of \<^verbatim>\<open>this\<close>.\<close>
  "GVec_addScaled scalar that this =
     for_each [0..<length this] (\<lambda>i v.
       bind_result (GVec_get that i) (\<lambda>x. GVec_set i (v ! i + scalar * x) v)) this"

definition GVec_dotProduct :: "GVec \<Rightarrow> GVec \<Rightarrow> error + real" where
  \<comment> \<open>Modelled from the spec: \<^verbatim>\<open>this.dotProduct(that)\<close>, the dot product of the external
      vector type: the sum of \<^verbatim>\<open>this[i] * that[i]\<close> over the indices of \<^verbatim>\<open>this\<close>, added up
      from index 0.\<close>
  "GVec_dotProduct this that =
     for_each [0..<length this] (\<lambda>i s.
       bind_result (GVec_get that i) (\<lambda>x. Inr (s + this ! i * x))) 0"

record GLayerLinear =
  lin_weights :: GMatrix
  lin_activation :: GMatrix

definition GLayerLinear_inputs :: "GLayerLinear \<Rightarrow> nat" where
  \<comment> \<open>\<^verbatim>\<open>m_weights.rows() - 1\<close> in \<^verbatim>\<open>size_t\<close>: it wraps around when the matrix has no row.\<close>
  "GLayerLinear_inputs L =
     (if GMatrix_rows (lin_weights L) = 0 then 2 ^ 64 - 1 else GMatrix_rows (lin_weights L) - 1)"

definition GLayerLinear_outputs :: "GLayerLinear \<Rightarrow> nat" where
  "GLayerLinear_outputs L = GMatrix_cols (lin_weights L)"

definition GLayerLinear_bias :: "GLayerLinear \<Rightarrow> error + GVec" where
  \<comment> \<open>\<^verbatim>\<open>m_weights.back()\<close>: the last row.\<close>
  "GLayerLinear_bias L =
     (if m_rows (lin_weights L) = [] then Inl OutOfRange else Inr (last (m_rows (lin_weights L))))"

definition GLayerLinear_activation :: "GLayerLinear \<Rightarrow> error + GVec" where
  "GLayerLinear_activation L = GMatrix_row (lin_activation L) 0"

definition GLayerLinear_error :: "GLayerLinear \<Rightarrow> error + GVec" where
  "GLayerLinear_error L = GMatrix_row (lin_activation L) 1"

definition GLayerLinear_countWeights :: "GLayerLinear \<Rightarrow> nat" where
  "GLayerLinear_countWeights L = (GLayerLinear_inputs L + 1) * GLayerLinear_outputs L"

definition GLayerLinear_resize :: "nat \<Rightarrow> nat \<Rightarrow> GLayerLinear \<Rightarrow> GLayerLinear" where
  "GLayerLinear_resize inp out L =
     (if inp = GLayerLinear_inputs L \<and> out = GLayerLinear_outputs L then L
      else \<lparr>lin_weights = GMatrix_resize (inp + 1) out, lin_activation = GMatrix_resize 2 out\<rparr>)"

definition GLayerLinear_new :: "nat \<Rightarrow> nat \<Rightarrow> GLayerLinear" where
  \<comment> \<open>The constructor \<^verbatim>\<open>GLayerLinear(size_t in, size_t out)\<close>.\<close>
  "GLayerLinear_new inp out =
     GLayerLinear_resize inp out \<lparr>lin_weights = GMatrix_default, lin_activation = GMatrix_default\<rparr>"

definition GLayerLinear_feedForward :: "GVec \<Rightarrow> GLayerLinear \<Rightarrow> error + GLayerLinear" where
  \<comment> \<open>\<^verbatim>\<open>a.copy(bias())\<close> makes row 0 of \<^verbatim>\<open>m_activation\<close> a copy of the bias; each input then
      adds its scaled row of weights. (The \<^verbatim>\<open>GAssert\<close> of the first line is compiled out of
      release builds and is not modelled.)\<close>
  "GLayerLinear_feedForward inp L =
     bind_result (GLayerLinear_activation L) (\<lambda>_.
     bind_result (GLayerLinear_bias L) (\<lambda>b.
     bind_result
       (for_each [0..<GLayerLinear_inputs L] (\<lambda>i a.
          bind_result (GVec_get inp i) (\<lambda>x.
          bind_result (GMatrix_row (lin_weights L) i) (\<lambda>w.
          GVec_addScaled x w a))) b)
       (\<lambda>a. Inr (L\<lparr>lin_activation := GMatrix_set_row 0 a (lin_activation L)\<rparr>))))"

definition GLayerLinear_backPropError ::
  "GLayerLinear \<Rightarrow> nat \<Rightarrow> GVec \<Rightarrow> error + GVec" where
  \<comment> \<open>\<open>inputCount\<close> is \<^verbatim>\<open>pUpStreamLayer->outputs()\<close>; the upstream layer's error buffer is
      passed in and returned.\<close>
  "GLayerLinear_backPropError L inputCount upStreamError =
     bind_result (GLayerLinear_error L) (\<lambda>source.
       for_each [0..<inputCount] (\<lambda>i ue.
         bind_result (GMatrix_row (lin_weights L) i) (\<lambda>w.
         bind_result (GVec_dotProduct source w) (\<lambda>d.
         GVec_set i d ue))) upStreamError)"

definition add_at :: "nat \<Rightarrow> real \<Rightarrow> GVec \<Rightarrow> error + GVec" where
  \<comment> \<open>\<^verbatim>\<open>*delta += x\<close> with \<^verbatim>\<open>delta\<close> pointing at element \<open>p\<close> of the buffer.\<close>
  "add_at p x d = (if p < length d then Inr (d[p := d ! p + x]) else Inl OutOfRange)"

definition GLayerLinear_updateDeltas ::
  "GLayerLinear \<Rightarrow> GVec \<Rightarrow> GVec \<Rightarrow> error + GVec" where
  \<comment> \<open>The pointer \<^verbatim>\<open>delta\<close> walks the buffer \<^verbatim>\<open>deltas\<close>; the state of the loops is the pair
      of its offset and the buffer.\<close>
  "GLayerLinear_updateDeltas L upStreamActivation deltas =
     bind_result (GLayerLinear_error L) (\<lambda>err.
     bind_result
       (for_each [0..<GLayerLinear_inputs L] (\<lambda>i pd.
          bind_result (GVec_get upStreamActivation i) (\<lambda>act.
            for_each [0..<GLayerLinear_outputs L] (\<lambda>j (p, d).
              bind_result (GVec_get err j) (\<lambda>e.
              bind_result (add_at p (e * act) d) (\<lambda>d'. Inr (p + 1, d')))) pd)) (0, deltas))
       (\<lambda>pd.
     bind_result
       (for_each [0..<GLayerLinear_outputs L] (\<lambda>j (p, d).
          bind_result (GVec_get err j) (\<lambda>e.
          bind_result (add_at p e d) (\<lambda>d'. Inr (p + 1, d')))) pd)
       (\<lambda>pd. Inr (snd pd))))"

definition GMatrix_wf :: "GMatrix \<Rightarrow> bool" where
  \<comment> \<open>The invariant of the matrix type: every row has as many elements as the matrix has
      columns.\<close>
  "GMatrix_wf M = list_all (\<lambda>r. length r = m_cols M) (m_rows M)"

definition GLayerLinear_wf :: "GLayerLinear \<Rightarrow> bool" where
  \<comment> \<open>The states that \<^verbatim>\<open>resize\<close> produces and that every method preserves.\<close>
  "GLayerLinear_wf L =
     (GMatrix_wf (lin_weights L) \<and> GMatrix_wf (lin_activation L)
      \<and> 0 < GMatrix_rows (lin_weights L) \<and> GMatrix_rows (lin_activation L) = 2
      \<and> GMatrix_cols (lin_activation L) = GMatrix_cols (lin_weights L))"

text \<open>A small layer with two inputs and two outputs, used to exercise the theorems.\<close>

definition GLayerLinear_example :: GLayerLinear where
  "GLayerLinear_example =
     \<lparr>lin_weights = \<lparr>m_cols = 2, m_rows = [[1, 2], [3, 4], [5, 6]]\<rparr>,
      lin_activation = \<lparr>m_cols = 2, m_rows = [[0, 0], [1, 10]]\<rparr>\<rparr>"

section \<open>The logistic activation\<close>

definition GLayerLogistic_eval :: "real \<Rightarrow> real" where
  "GLayerLogistic_eval x =
     (if x \<ge> 700 then 1
      else if x < - 700 then 0
      else 1 / (exp (- x) + 1))"

definition DBL_MAX :: real where
  \<comment> \<open>The largest finite \<^verbatim>\<open>double\<close>.\<close>
  "DBL_MAX = (2 - 1 / 2 ^ 52) * 2 ^ 1023"

section \<open>The one-dimensional convolutional layer\<close>

text \<open>
  \<^verbatim>\<open>GLayerConvolutional1D\<close> owns one kernel per row of \<^verbatim>\<open>m_kernels\<close> (\<^verbatim>\<open>inputChannels *
  kernelsPerChannel\<close> rows of \<^verbatim>\<open>kernelSize\<close> columns), one bias per kernel in \<^verbatim>\<open>m_bias\<close>, and
  \<^verbatim>\<open>m_activation\<close> (row 0 the activation, row 1 the error).
\<close>

definition GVec_put :: "nat \<Rightarrow> GVec \<Rightarrow> GVec \<Rightarrow> error + GVec" where
  \<comment> \<open>Modelled from the spec: \<^verbatim>\<open>this.put(pos, that)\<close> of the external vector type copies
      \<^verbatim>\<open>that\<close> over the elements of \<^verbatim>\<open>this\<close> from index \<^verbatim>\<open>pos\<close> on.\<close>
  "GVec_put pos that this =
     (if pos + length that \<le> length this
      then Inr (take pos this @ that @ drop (pos + length that) this)
      else Inl OutOfRange)"

definition GMatrix_toVector :: "GMatrix \<Rightarrow> GVec" where
  \<comment> \<open>Modelled from the spec: \<^verbatim>\<open>GMatrix::toVector(double*)\<close> of the external row-major
      matrix type writes the rows one after the other; the result is the doubles written.\<close>
  "GMatrix_toVector M = concat (m_rows M)"

definition GMatrix_fromVector :: "GVec \<Rightarrow> nat \<Rightarrow> GMatrix \<Rightarrow> error + GMatrix" where
  \<comment> \<open>Modelled from the spec: \<^verbatim>\<open>GMatrix::fromVector(const double*, size_t nRows)\<close> of the
      external row-major matrix type makes the matrix \<^verbatim>\<open>nRows\<close> rows high and fills the
      rows, in order, from the buffer. The buffer is the list of the doubles that may be
      read; reading past it is \<open>OutOfRange\<close>.\<close>
  "GMatrix_fromVector v nRows M =
     (if length v < nRows * m_cols M then Inl OutOfRange
      else Inr (M\<lparr>m_rows := map (\<lambda>r. take (m_cols M) (drop (r * m_cols M) v)) [0..<nRows]\<rparr>))"

record GLayerConvolutional1D =
  c1_inputSamples :: nat
  c1_inputChannels :: nat
  c1_outputSamples :: nat
  c1_kernelsPerChannel :: nat
  c1_kernels :: GMatrix
  c1_activation :: GMatrix
  c1_bias :: GVec

definition GLayerConvolutional1D_new ::
  "nat \<Rightarrow> nat \<Rightarrow> nat \<Rightarrow> nat \<Rightarrow> error + GLayerConvolutional1D" where
  \<comment> \<open>The constructor. The members are initialised before the body throws, so
      \<^verbatim>\<open>inputSamples - kernelSize + 1\<close> is only kept when it did not wrap around. The
      elements of a fresh \<^verbatim>\<open>GVec(n)\<close> are not initialised by the source and are 0 here.\<close>
  "GLayerConvolutional1D_new inputSamples inputChannels kernelSize kernelsPerChannel =
     (if kernelSize > inputSamples then Inl (Ex_thrown ''kernelSize must be <= inputSamples'')
      else Inr \<lparr>c1_inputSamples = inputSamples,
                c1_inputChannels = inputChannels,
                c1_outputSamples = inputSamples - kernelSize + 1,
                c1_kernelsPerChannel = kernelsPerChannel,
                c1_kernels = GMatrix_resize (inputChannels * kernelsPerChannel) kernelSize,
                c1_activation = GMatrix_resize 2
                  (inputChannels * kernelsPerChannel * (inputSamples - kernelSize + 1)),
                c1_bias = replicate (inputChannels * kernelsPerChannel) 0\<rparr>)"

definition GLayerConvolutional1D_inputs :: "GLayerConvolutional1D \<Rightarrow> nat" where
  "GLayerConvolutional1D_inputs L = c1_inputSamples L * c1_inputChannels L"

definition GLayerConvolutional1D_outputs :: "GLayerConvolutional1D \<Rightarrow> nat" where
  "GLayerConvolutional1D_outputs L =
     c1_outputSamples L * c1_inputChannels L * c1_kernelsPerChannel L"

definition GLayerConvolutional1D_activation :: "GLayerConvolutional1D \<Rightarrow> error + GVec" where
  "GLayerConvolutional1D_activation L = GMatrix_row (c1_activation L) 0"

definition GLayerConvolutional1D_error :: "GLayerConvolutional1D \<Rightarrow> error + GVec" where
  "GLayerConvolutional1D_error L = GMatrix_row (c1_activation L) 1"

text \<open>
  \<^verbatim>\<open>GLayerConvolutional1D::feedForward\<close> first copies the bias over every output sample,
  then runs four nested loops; each loop is one definition here, innermost first. The
  counters \<^verbatim>\<open>kern\<close>, \<^verbatim>\<open>netPos\<close> and \<^verbatim>\<open>inPos\<close> and the activation buffer \<^verbatim>\<open>n\<close> are the state
  that the loops pass on.
\<close>

definition GLayerConvolutional1D_connections ::
  "GLayerConvolutional1D \<Rightarrow> GVec \<Rightarrow> GVec \<Rightarrow> nat \<Rightarrow> error + real" where
  \<comment> \<open>\<^verbatim>\<open>for(l = 0; l < kernelSize; l++) d += w[l] * in[inPos + l * m_inputChannels];\<close>\<close>
  "GLayerConvolutional1D_connections L inp w inPos =
     for_each [0..<GMatrix_cols (c1_kernels L)] (\<lambda>l d.
       bind_result (GVec_get w l) (\<lambda>wl.
       bind_result (GVec_get inp (inPos + l * c1_inputChannels L)) (\<lambda>x.
       Inr (d + wl * x)))) 0"

definition GLayerConvolutional1D_kernelLoop ::
  "GLayerConvolutional1D \<Rightarrow> GVec \<Rightarrow> nat \<Rightarrow> nat \<times> nat \<times> GVec \<Rightarrow> error + nat \<times> nat \<times> GVec" where
  \<comment> \<open>\<^verbatim>\<open>for(k = 0; k < m_kernelsPerChannel; k++)\<close> on the state \<open>(kern, netPos, n)\<close>.\<close>
  "GLayerConvolutional1D_kernelLoop L inp inPos s =
     for_each [0..<c1_kernelsPerChannel L] (\<lambda>k (kern, netPos, n).
       bind_result (GMatrix_row (c1_kernels L) kern) (\<lambda>w.
       bind_result (GLayerConvolutional1D_connections L inp w inPos) (\<lambda>d.
       bind_result (add_at netPos d n) (\<lambda>n'.
       Inr (kern + 1, netPos + 1, n'))))) s"

definition GLayerConvolutional1D_channelLoop ::
  "GLayerConvolutional1D \<Rightarrow> GVec \<Rightarrow> nat \<times> nat \<times> GVec \<Rightarrow> error + nat \<times> nat \<times> GVec" where
  \<comment> \<open>\<^verbatim>\<open>size_t kern = 0; for(j = 0; j < m_inputChannels; j++) { ...; inPos++; }\<close> on the
      state \<open>(netPos, inPos, n)\<close>.\<close>
  "GLayerConvolutional1D_channelLoop L inp s =
     (case s of (netPos, inPos, n) \<Rightarrow>
       bind_result
         (for_each [0..<c1_inputChannels L] (\<lambda>j (kern, netPos, inPos, n).
            bind_result (GLayerConvolutional1D_kernelLoop L inp inPos (kern, netPos, n))
              (\<lambda>(kern, netPos, n). Inr (kern, netPos, inPos + 1, n))) (0, netPos, inPos, n))
         (\<lambda>(kern, netPos, inPos, n). Inr (netPos, inPos, n)))"

definition GLayerConvolutional1D_feedForward ::
  "GVec \<Rightarrow> GLayerConvolutional1D \<Rightarrow> error + GLayerConvolutional1D" where
  "GLayerConvolutional1D_feedForward inp L =
     bind_result (GLayerConvolutional1D_activation L) (\<lambda>a.
     bind_result
       (for_each [0..<c1_outputSamples L] (\<lambda>i a.
          GVec_put (length (c1_bias L) * i) (c1_bias L) a) a)
       (\<lambda>n.
     bind_result
       (for_each [0..<c1_outputSamples L] (\<lambda>i s.
          GLayerConvolutional1D_channelLoop L inp s) (0, 0, n))
       (\<lambda>(netPos, inPos, n).
          Inr (L\<lparr>c1_activation := GMatrix_set_row 0 n (c1_activation L)\<rparr>))))"

definition GLayerConvolutional1D_countWeights :: "GLayerConvolutional1D \<Rightarrow> nat" where
  "GLayerConvolutional1D_countWeights L =
     (GMatrix_rows (c1_kernels L) + 1) * GMatrix_cols (c1_kernels L)"

definition GLayerConvolutional1D_weightsToVector ::
  "GLayerConvolutional1D \<Rightarrow> error + GVec \<times> nat" where
  \<comment> \<open>The result is the doubles written to \<^verbatim>\<open>pOutVector\<close>, in order, and the value
      returned. \<^verbatim>\<open>memcpy\<close> reads \<^verbatim>\<open>m_kernels.rows()\<close> doubles of the bias.\<close>
  "GLayerConvolutional1D_weightsToVector L =
     (if length (c1_bias L) < GMatrix_rows (c1_kernels L) then Inl OutOfRange
      else Inr (take (GMatrix_rows (c1_kernels L)) (c1_bias L) @ GMatrix_toVector (c1_kernels L),
                (GMatrix_rows (c1_kernels L) + 1) * GMatrix_cols (c1_kernels L)))"

definition GLayerConvolutional1D_vectorToWeights ::
  "GVec \<Rightarrow> GLayerConvolutional1D \<Rightarrow> error + GLayerConvolutional1D \<times> nat" where
  \<comment> \<open>\<open>v\<close> is the buffer behind \<^verbatim>\<open>pVector\<close>. The result is the layer and the value
      returned.\<close>
  "GLayerConvolutional1D_vectorToWeights v L =
     (if length v < GMatrix_rows (c1_kernels L)
         \<or> length (c1_bias L) < GMatrix_rows (c1_kernels L) then Inl OutOfRange
      else
        bind_result
          (GMatrix_fromVector (drop (GMatrix_rows (c1_kernels L)) v)
             (GMatrix_rows (c1_kernels L)) (c1_kernels L))
          (\<lambda>K. Inr (L\<lparr>c1_kernels := K,
                        c1_bias := take (GMatrix_rows (c1_kernels L)) v
                                   @ drop (GMatrix_rows (c1_kernels L)) (c1_bias L)\<rparr>,
                      (GMatrix_rows (c1_kernels L) + 1) * GMatrix_cols (c1_kernels L))))"

section \<open>The maxout layer\<close>

text \<open>
  \<^verbatim>\<open>GLayerMaxOut\<close> owns \<^verbatim>\<open>m_weights\<close> (one row per input, one column per output), \<^verbatim>\<open>m_bias\<close>
  (row 0 the bias, one element per input), \<^verbatim>\<open>m_activation\<close> (row 0 the activation, row 1
  the error) and \<^verbatim>\<open>m_winners\<close>, the index of the winning input of every output.

  \<^verbatim>\<open>GLayerMaxOut::feedForward\<close> calls \<^verbatim>\<open>rand()\<close> of the C library, whose generator is hidden
  process-wide state. The state is made explicit as the sequence of the values that the
  coming calls return; \<^verbatim>\<open>feedForward\<close> takes it and returns what is left of it.
\<close>

type_synonym crand = "nat \<Rightarrow> nat"

definition c_rand :: "crand \<Rightarrow> nat \<times> crand" where
  \<comment> \<open>One call of \<^verbatim>\<open>rand()\<close>: the next value, and the state after the call.\<close>
  "c_rand g = (g 0, \<lambda>k. g (Suc k))"

record GLayerMaxOut =
  mo_weights :: GMatrix
  mo_bias :: GMatrix
  mo_activation :: GMatrix
  mo_winners :: "nat list"

definition GLayerMaxOut_inputs :: "GLayerMaxOut \<Rightarrow> nat" where
  "GLayerMaxOut_inputs L = GMatrix_rows (mo_weights L)"

definition GLayerMaxOut_outputs :: "GLayerMaxOut \<Rightarrow> nat" where
  "GLayerMaxOut_outputs L = GMatrix_cols (mo_weights L)"

definition GLayerMaxOut_bias :: "GLayerMaxOut \<Rightarrow> error + GVec" where
  "GLayerMaxOut_bias L = GMatrix_row (mo_bias L) 0"

definition GLayerMaxOut_activation :: "GLayerMaxOut \<Rightarrow> error + GVec" where
  "GLayerMaxOut_activation L = GMatrix_row (mo_activation L) 0"

definition GLayerMaxOut_resize :: "nat \<Rightarrow> nat \<Rightarrow> GLayerMaxOut \<Rightarrow> GLayerMaxOut" where
  \<comment> \<open>The elements of the resized \<^verbatim>\<open>m_winners\<close> are not initialised by the source and are
      0 here.\<close>
  "GLayerMaxOut_resize inputCount outputCount L =
     (if inputCount = GLayerMaxOut_inputs L \<and> outputCount = GLayerMaxOut_outputs L then L
      else \<lparr>mo_weights = GMatrix_resize inputCount outputCount,
            mo_bias = GMatrix_resize 2 inputCount,
            mo_activation = GMatrix_resize 2 outputCount,
            mo_winners = replicate outputCount 0\<rparr>)"

definition GLayerMaxOut_new :: "nat \<Rightarrow> nat \<Rightarrow> GLayerMaxOut" where
  \<comment> \<open>The constructor \<^verbatim>\<open>GLayerMaxOut(size_t inps, size_t outs)\<close>.\<close>
  "GLayerMaxOut_new inps outs =
     GLayerMaxOut_resize inps outs
       \<lparr>mo_weights = GMatrix_default, mo_bias = GMatrix_default,
        mo_activation = GMatrix_default, mo_winners = []\<rparr>"

definition GMatrix_get :: "GMatrix \<Rightarrow> nat \<Rightarrow> nat \<Rightarrow> error + real" where
  \<comment> \<open>Reading \<^verbatim>\<open>M[r][c]\<close>.\<close>
  "GMatrix_get M r c = bind_result (GMatrix_row M r) (\<lambda>row. GVec_get row c)"

definition GIndexVec_set :: "nat \<Rightarrow> nat \<Rightarrow> nat list \<Rightarrow> error + nat list" where
  \<comment> \<open>Modelled from the spec: writing through \<^verbatim>\<open>GIndexVec::operator[]\<close>, the index vector of
      the external numeric primitives.\<close>
  "GIndexVec_set i x v = (if i < length v then Inr (v[i := x]) else Inl OutOfRange)"

definition GLayerMaxOut_candidate ::
  "GLayerMaxOut \<Rightarrow> GVec \<Rightarrow> GVec \<Rightarrow> nat \<Rightarrow> nat \<Rightarrow> error + real" where
  \<comment> \<open>\<^verbatim>\<open>(in[j] + b[j]) * m_weights[j][i]\<close>\<close>
  "GLayerMaxOut_candidate L inp b j i =
     bind_result (GVec_get inp j) (\<lambda>x.
     bind_result (GVec_get b j) (\<lambda>bj.
     bind_result (GMatrix_get (mo_weights L) j i) (\<lambda>w.
     Inr ((x + bj) * w))))"

definition GLayerMaxOut_best ::
  "GLayerMaxOut \<Rightarrow> GVec \<Rightarrow> GVec \<Rightarrow> nat \<Rightarrow> nat list \<Rightarrow> error + real \<times> nat list" where
  \<comment> \<open>The loop over the inputs for output \<open>i\<close>, on the state \<open>(best, m_winners)\<close>.\<close>
  "GLayerMaxOut_best L inp b i winners =
     for_each [0..<GLayerMaxOut_inputs L] (\<lambda>j (best, winners).
       bind_result (GLayerMaxOut_candidate L inp b j i) (\<lambda>cand.
         if cand > best
         then bind_result (GIndexVec_set i j winners) (\<lambda>winners'. Inr (cand, winners'))
         else Inr (best, winners))) (- (10 ^ 200), winners)"

definition GLayerMaxOut_explore ::
  "GLayerMaxOut \<Rightarrow> GVec \<Rightarrow> GVec \<Rightarrow> nat \<Rightarrow> real \<times> nat list \<times> crand
     \<Rightarrow> error + real \<times> nat list \<times> crand" where
  \<comment> \<open>\<^verbatim>\<open>if(rand() % 10 == 0) { size_t j = rand() % inputCount; ... }\<close>\<close>
  "GLayerMaxOut_explore L inp b i s =
     (case s of (best, winners, g) \<Rightarrow>
       (case c_rand g of (r, g1) \<Rightarrow>
         if r mod 10 = 0
         then (case c_rand g1 of (r', g2) \<Rightarrow>
           if GLayerMaxOut_inputs L = 0 then Inl DivisionByZero
           else
             bind_result
               (GLayerMaxOut_candidate L inp b (r' mod GLayerMaxOut_inputs L) i) (\<lambda>best'.
             bind_result
               (GIndexVec_set i (r' mod GLayerMaxOut_inputs L) winners) (\<lambda>winners'.
             Inr (best', winners', g2))))
         else Inr (best, winners, g1)))"

definition GLayerMaxOut_feedForward ::
  "GVec \<Rightarrow> GLayerMaxOut \<Rightarrow> crand \<Rightarrow> error + GLayerMaxOut \<times> crand" where
  \<comment> \<open>The state of the loop over the outputs is the activation buffer, \<^verbatim>\<open>m_winners\<close> and
      the state of \<^verbatim>\<open>rand()\<close>.\<close>
  "GLayerMaxOut_feedForward inp L g =
     bind_result (GLayerMaxOut_bias L) (\<lambda>b.
     bind_result (GLayerMaxOut_activation L) (\<lambda>a.
     bind_result
       (for_each [0..<GLayerMaxOut_outputs L] (\<lambda>i (a, winners, g).
          bind_result (GLayerMaxOut_best L inp b i winners) (\<lambda>(best, winners).
          bind_result (GLayerMaxOut_explore L inp b i (best, winners, g)) (\<lambda>(best, winners, g).
          bind_result (GVec_set i best a) (\<lambda>a'.
          Inr (a', winners, g))))) (a, mo_winners L, g))
       (\<lambda>(a, winners, g).
          Inr (L\<lparr>mo_activation := GMatrix_set_row 0 a (mo_activation L),
                  mo_winners := winners\<rparr>, g))))"

definition GLayerMaxOut_countWeights :: "GLayerMaxOut \<Rightarrow> nat" where
  "GLayerMaxOut_countWeights L = GLayerMaxOut_inputs L * (GLayerMaxOut_outputs L + 1)"

definition GLayerMaxOut_weightsToVector :: "GLayerMaxOut \<Rightarrow> error + GVec \<times> nat" where
  \<comment> \<open>The doubles written to \<^verbatim>\<open>pOutVector\<close>, in order, and the value returned.\<close>
  "GLayerMaxOut_weightsToVector L =
     bind_result (GLayerMaxOut_bias L) (\<lambda>b.
       if length b < GLayerMaxOut_inputs L then Inl OutOfRange
       else Inr (take (GLayerMaxOut_inputs L) b @ GMatrix_toVector (mo_weights L),
                 GLayerMaxOut_inputs L * (GLayerMaxOut_outputs L + 1)))"

definition GLayerMaxOut_vectorToWeights ::
  "GVec \<Rightarrow> GLayerMaxOut \<Rightarrow> error + GLayerMaxOut \<times> nat" where
  \<comment> \<open>\<open>v\<close> is the buffer behind \<^verbatim>\<open>pVector\<close>. \<^verbatim>\<open>bias().set(pVector, inputs())\<close> makes the bias
      the first \<^verbatim>\<open>inputs()\<close> doubles of the buffer.\<close>
  "GLayerMaxOut_vectorToWeights v L =
     bind_result (GLayerMaxOut_bias L) (\<lambda>_.
       if length v < GLayerMaxOut_inputs L then Inl OutOfRange
       else
         bind_result
           (GMatrix_fromVector (drop (GLayerMaxOut_inputs L) v) (GLayerMaxOut_inputs L)
              (mo_weights L))
           (\<lambda>W. Inr (L\<lparr>mo_weights := W,
                         mo_bias := GMatrix_set_row 0 (take (GLayerMaxOut_inputs L) v) (mo_bias L)\<rparr>,
                       GLayerMaxOut_inputs L * (GLayerMaxOut_outputs L + 1))))"

definition GLayerMaxOut_example :: GLayerMaxOut where
  \<comment> \<open>Two inputs, one output, both weights 1, no bias.\<close>
  "GLayerMaxOut_example =
     \<lparr>mo_weights = \<lparr>m_cols = 1, m_rows = [[1], [1]]\<rparr>,
      mo_bias = \<lparr>m_cols = 2, m_rows = [[0, 0], [0, 0]]\<rparr>,
      mo_activation = \<lparr>m_cols = 1, m_rows = [[0], [0]]\<rparr>,
      mo_winners = [0]\<rparr>"

section \<open>Serialized documents\<close>

text \<open>
  A layer is serialized to a \<^verbatim>\<open>GDomNode\<close>: an object with named fields whose leaves are
  numbers, booleans, and the documents of matrices and vectors. The DOM classes and the
  serialization of \<^verbatim>\<open>GMatrix\<close> and \<^verbatim>\<open>GVec\<close> are external to the layers; a matrix or vector
  document is a leaf that holds the matrix or vector.
\<close>

datatype GDomNode =
    DomInt int
  | DomBool bool
  | DomMatrix GMatrix
  | DomVec GVec
  | DomObj "(string \<times> GDomNode) list"

definition GDomNode_newObj :: GDomNode where
  "GDomNode_newObj = DomObj []"

definition GDomNode_addField :: "string \<Rightarrow> GDomNode \<Rightarrow> GDomNode \<Rightarrow> GDomNode" where
  \<comment> \<open>Modelled from the spec: \<^verbatim>\<open>pNode->addField(pDoc, name, value)\<close> appends a named field to
      an object node.\<close>
  "GDomNode_addField name v node =
     (case node of DomObj fs \<Rightarrow> DomObj (fs @ [(name, v)]) | _ \<Rightarrow> node)"

definition GDomNode_field :: "GDomNode \<Rightarrow> string \<Rightarrow> error + GDomNode" where
  \<comment> \<open>Modelled from the spec: \<^verbatim>\<open>pNode->field(name)\<close> returns the field of that name and
      throws when the document has no such field.\<close>
  "GDomNode_field node name =
     (case node of
        DomObj fs \<Rightarrow>
          (case map_of fs name of
             Some v \<Rightarrow> Inr v
           | None \<Rightarrow> Inl (Ex_thrown (''There is no field named '' @ name)))
      | _ \<Rightarrow> Inl (Ex_thrown ''not an object''))"

definition GDomNode_asInt :: "GDomNode \<Rightarrow> error + int" where
  \<comment> \<open>Modelled from the spec: \<^verbatim>\<open>asInt()\<close> throws on a node that is not an integer.\<close>
  "GDomNode_asInt node = (case node of DomInt i \<Rightarrow> Inr i | _ \<Rightarrow> Inl (Ex_thrown ''not an int''))"

definition GDomNode_asBool :: "GDomNode \<Rightarrow> error + bool" where
  \<comment> \<open>Modelled from the spec: \<^verbatim>\<open>asBool()\<close> throws on a node that is not a boolean.\<close>
  "GDomNode_asBool node = (case node of DomBool b \<Rightarrow> Inr b | _ \<Rightarrow> Inl (Ex_thrown ''not a bool''))"

definition GDomNode_size_t :: "GDomNode \<Rightarrow> string \<Rightarrow> error + nat" where
  \<comment> \<open>\<^verbatim>\<open>(size_t)pNode->field(name)->asInt()\<close>: the cast of a \<^verbatim>\<open>long long\<close> to \<^verbatim>\<open>size_t\<close> is
      modulo \<open>2 ^ 64\<close>.\<close>
  "GDomNode_size_t node name =
     bind_result (GDomNode_field node name) (\<lambda>f.
     bind_result (GDomNode_asInt f) (\<lambda>i. Inr (nat (i mod 2 ^ 64))))"

definition GDomNode_newInt :: "nat \<Rightarrow> GDomNode" where
  \<comment> \<open>\<^verbatim>\<open>pDoc->newInt(n)\<close> of a \<^verbatim>\<open>size_t\<close>: the conversion to \<^verbatim>\<open>long long\<close> wraps values from
      \<open>2 ^ 63\<close> on to negative ones.\<close>
  "GDomNode_newInt n =
     DomInt (if int n mod 2 ^ 64 < 2 ^ 63 then int n mod 2 ^ 64 else int n mod 2 ^ 64 - 2 ^ 64)"

definition GMatrix_serialize :: "GMatrix \<Rightarrow> GDomNode" where
  \<comment> \<open>Modelled from the spec: \<^verbatim>\<open>GMatrix::serialize\<close>, lossless by the contract of the
      external matrix type.\<close>
  "GMatrix_serialize M = DomMatrix M"

definition GMatrix_deserialize :: "GDomNode \<Rightarrow> error + GMatrix" where
  \<comment> \<open>Modelled from the spec: the constructor \<^verbatim>\<open>GMatrix(GDomNode*)\<close>.\<close>
  "GMatrix_deserialize node =
     (case node of DomMatrix M \<Rightarrow> Inr M | _ \<Rightarrow> Inl (Ex_thrown ''not a matrix''))"

definition GVec_serialize :: "GVec \<Rightarrow> GDomNode" where
  \<comment> \<open>Modelled from the spec: \<^verbatim>\<open>GVec::serialize\<close>, lossless by the contract of the external
      vector type.\<close>
  "GVec_serialize v = DomVec v"

definition GVec_deserialize :: "GDomNode \<Rightarrow> error + GVec" where
  \<comment> \<open>Modelled from the spec: \<^verbatim>\<open>GVec::deserialize\<close> and the constructor
      \<^verbatim>\<open>GVec(GDomNode*)\<close>.\<close>
  "GVec_deserialize node =
     (case node of DomVec v \<Rightarrow> Inr v | _ \<Rightarrow> Inl (Ex_thrown ''not a vector''))"

datatype LayerType =
    layer_tanh
  | layer_logistic
  | layer_bentidentity
  | layer_softroot
  | layer_sigexp
  | layer_gaussian
  | layer_sine
  | layer_rectifier
  | layer_leakyrectifier
  | layer_softplus
  | layer_linear
  | layer_activation
  | layer_productpooling
  | layer_additionpooling
  | layer_maxout
  | layer_softmax
  | layer_restrictedboltzmannmachine
  | layer_convolutional1d
  | layer_convolutional2d
  | layer_maxpooling

fun LayerType_value :: "LayerType \<Rightarrow> nat" where
  \<comment> \<open>The values of the enumerators, in the order of their declaration.\<close>
  "LayerType_value layer_tanh = 0"
| "LayerType_value layer_logistic = 1"
| "LayerType_value layer_bentidentity = 2"
| "LayerType_value layer_softroot = 3"
| "LayerType_value layer_sigexp = 4"
| "LayerType_value layer_gaussian = 5"
| "LayerType_value layer_sine = 6"
| "LayerType_value layer_rectifier = 7"
| "LayerType_value layer_leakyrectifier = 8"
| "LayerType_value layer_softplus = 9"
| "LayerType_value layer_linear = 10"
| "LayerType_value layer_activation = 11"
| "LayerType_value layer_productpooling = 12"
| "LayerType_value layer_additionpooling = 13"
| "LayerType_value layer_maxout = 14"
| "LayerType_value layer_softmax = 15"
| "LayerType_value layer_restrictedboltzmannmachine = 16"
| "LayerType_value layer_convolutional1d = 17"
| "LayerType_value layer_convolutional2d = 18"
| "LayerType_value layer_maxpooling = 19"

definition baseDomNode :: "LayerType \<Rightarrow> GDomNode" where
  \<comment> \<open>\<^verbatim>\<open>GNeuralNetLayer::baseDomNode\<close>, with \<^verbatim>\<open>type()\<close> of the layer as argument.\<close>
  "baseDomNode t =
     GDomNode_addField ''type'' (GDomNode_newInt (LayerType_value t)) GDomNode_newObj"

section \<open>Two-dimensional max pooling\<close>

text \<open>
  \<^verbatim>\<open>GMaxPooling2D\<close> keeps the input geometry, the region size and \<^verbatim>\<open>m_activation\<close> (row 0 the
  activation, row 1 the error). Its loops advance by the region size or by a stride, so a
  zero step never ends: a loop is a partial function whose result \<open>None\<close> stands for not
  returning, and whose body may fail with an error.
\<close>

partial_function (option) for_step ::
  "nat \<Rightarrow> nat \<Rightarrow> nat \<Rightarrow> (nat \<Rightarrow> 's \<Rightarrow> (error + 's) option) \<Rightarrow> 's \<Rightarrow> (error + 's) option" where
  \<comment> \<open>\<^verbatim>\<open>for(i = ...; i < hi; i += step) body\<close>\<close>
  "for_step i hi step body s =
     (if i < hi
      then (case body i s of
              None \<Rightarrow> None
            | Some (Inl e) \<Rightarrow> Some (Inl e)
            | Some (Inr s') \<Rightarrow> for_step (i + step) hi step body s')
      else Some (Inr s))"

declare for_step.simps [code]

record GMaxPooling2D =
  mp_inputCols :: nat
  mp_inputRows :: nat
  mp_inputChannels :: nat
  mp_regionSize :: nat
  mp_activation :: GMatrix

definition GMaxPooling2D_new :: "nat \<Rightarrow> nat \<Rightarrow> nat \<Rightarrow> nat \<Rightarrow> nat \<Rightarrow> error + GMaxPooling2D" where
  \<comment> \<open>The constructor \<^verbatim>\<open>GMaxPooling2D(inputCols, inputRows, inputChannels, regionSize)\<close>. Its
      initialiser list leaves \<^verbatim>\<open>m_regionSize\<close> out, so the member holds an indeterminate
      value, the last argument here, when the body sizes \<^verbatim>\<open>m_activation\<close> with it.\<close>
  "GMaxPooling2D_new inputCols inputRows inputChannels regionSize indeterminate =
     (if regionSize = 0 then Inl DivisionByZero
      else if inputCols mod regionSize \<noteq> 0
        then Inl (Ex_thrown ''inputCols is not a multiple of regionSize'')
      else if inputRows mod regionSize \<noteq> 0
        then Inl (Ex_thrown ''inputRows is not a multiple of regionSize'')
      else if indeterminate * indeterminate = 0 then Inl DivisionByZero
      else Inr \<lparr>mp_inputCols = inputCols, mp_inputRows = inputRows,
                mp_inputChannels = inputChannels, mp_regionSize = indeterminate,
                mp_activation = GMatrix_resize 2
                  (inputRows * inputCols * inputChannels div (indeterminate * indeterminate))\<rparr>)"

definition GMaxPooling2D_deserialize :: "GDomNode \<Rightarrow> error + GMaxPooling2D" where
  \<comment> \<open>The deserializing constructor \<^verbatim>\<open>GMaxPooling2D(GDomNode* pNode)\<close>: it initialises the
      four sizes and has an empty body, so \<^verbatim>\<open>m_activation\<close> stays default-constructed.\<close>
  "GMaxPooling2D_deserialize pNode =
     bind_result (GDomNode_size_t pNode ''icol'') (\<lambda>icol.
     bind_result (GDomNode_size_t pNode ''irow'') (\<lambda>irow.
     bind_result (GDomNode_size_t pNode ''ichan'') (\<lambda>ichan.
     bind_result (GDomNode_size_t pNode ''size'') (\<lambda>size.
     Inr \<lparr>mp_inputCols = icol, mp_inputRows = irow, mp_inputChannels = ichan,
          mp_regionSize = size, mp_activation = GMatrix_default\<rparr>))))"

definition GMaxPooling2D_serialize :: "GMaxPooling2D \<Rightarrow> GDomNode" where
  "GMaxPooling2D_serialize L =
     GDomNode_addField ''size'' (GDomNode_newInt (mp_regionSize L))
       (GDomNode_addField ''ichan'' (GDomNode_newInt (mp_inputChannels L))
         (GDomNode_addField ''irow'' (GDomNode_newInt (mp_inputRows L))
           (GDomNode_addField ''icol'' (GDomNode_newInt (mp_inputCols L))
             (baseDomNode layer_maxpooling))))"

definition GMaxPooling2D_inputs :: "GMaxPooling2D \<Rightarrow> nat" where
  "GMaxPooling2D_inputs L = mp_inputRows L * mp_inputCols L * mp_inputChannels L"

definition GMaxPooling2D_outputs :: "GMaxPooling2D \<Rightarrow> error + nat" where
  "GMaxPooling2D_outputs L =
     (if mp_regionSize L * mp_regionSize L = 0 then Inl DivisionByZero
      else Inr (mp_inputRows L * mp_inputCols L * mp_inputChannels L
                  div (mp_regionSize L * mp_regionSize L)))"

definition GMaxPooling2D_activation :: "GMaxPooling2D \<Rightarrow> error + GVec" where
  "GMaxPooling2D_activation L = GMatrix_row (mp_activation L) 0"

definition GMaxPooling2D_error :: "GMaxPooling2D \<Rightarrow> error + GVec" where
  "GMaxPooling2D_error L = GMatrix_row (mp_activation L) 1"

definition lift_result :: "error + 'a \<Rightarrow> ('a \<Rightarrow> (error + 'b) option) \<Rightarrow> (error + 'b) option" where
  \<comment> \<open>Carries on with the value of a step that returned, or stops with its error.\<close>
  "lift_result r f = (case r of Inl e \<Rightarrow> Some (Inl e) | Inr x \<Rightarrow> f x)"

definition GMaxPooling2D_regionMax ::
  "GMaxPooling2D \<Rightarrow> GVec \<Rightarrow> nat \<Rightarrow> nat \<Rightarrow> nat \<Rightarrow> (error + real) option" where
  \<comment> \<open>The two inner loops of \<^verbatim>\<open>feedForward\<close> for the block at \<open>(xx, yy)\<close> and channel \<open>c\<close>;
      the state is the running maximum \<open>m\<close>. \<^verbatim>\<open>xStart\<close> is computed from \<^verbatim>\<open>yStart\<close>, as in
      the source, and \<^verbatim>\<open>xEnd\<close> adds \<open>c\<close> once more.\<close>
  "GMaxPooling2D_regionMax L inp yy xx c =
     (let yStep = mp_inputCols L * mp_inputChannels L;
          yStart = yy * yStep;
          yEnd = yStart + mp_regionSize L * yStep
      in for_step yStart yEnd yStep (\<lambda>y m.
           let xStart = yStart + xx * mp_inputChannels L + c;
               xEnd = xStart + mp_regionSize L * mp_inputChannels L + c
           in for_step xStart xEnd (mp_inputChannels L) (\<lambda>x m.
                lift_result (GVec_get inp x) (\<lambda>v. Some (Inr (max m v)))) m)
         (- (10 ^ 100)))"

definition GMaxPooling2D_feedForward ::
  "GVec \<Rightarrow> GMaxPooling2D \<Rightarrow> (error + GMaxPooling2D) option" where
  \<comment> \<open>The state of the three outer loops is \<open>(actPos, a)\<close>.\<close>
  "GMaxPooling2D_feedForward inp L =
     lift_result (GMaxPooling2D_activation L) (\<lambda>a.
       case
         for_step 0 (mp_inputRows L) (mp_regionSize L) (\<lambda>yy.
           for_step 0 (mp_inputCols L) (mp_regionSize L) (\<lambda>xx.
             for_step 0 (mp_inputChannels L) 1 (\<lambda>c (actPos, a).
               case GMaxPooling2D_regionMax L inp yy xx c of
                 None \<Rightarrow> None
               | Some r \<Rightarrow>
                   lift_result r (\<lambda>m.
                   lift_result (GVec_set actPos m a) (\<lambda>a'.
                   Some (Inr (actPos + 1, a'))))))) (0, a)
       of None \<Rightarrow> None
        | Some r \<Rightarrow>
            lift_result r (\<lambda>(actPos, a).
              Some (Inr (L\<lparr>mp_activation := GMatrix_set_row 0 a (mp_activation L)\<rparr>))))"

definition GMaxPooling2D_regionArgMax ::
  "GMaxPooling2D \<Rightarrow> GVec \<Rightarrow> nat \<Rightarrow> nat \<Rightarrow> nat \<Rightarrow> GVec \<Rightarrow> (error + (real \<times> nat \<times> GVec)) option" where
  \<comment> \<open>The two inner loops of \<^verbatim>\<open>backPropError\<close>; the state is \<open>(m, maxIndex, upStreamErr)\<close>.\<close>
  "GMaxPooling2D_regionArgMax L a yy xx c upStreamErr =
     (let yStep = mp_inputCols L * mp_inputChannels L;
          yStart = yy * yStep;
          yEnd = yStart + mp_regionSize L * yStep
      in for_step yStart yEnd yStep (\<lambda>y.
           let xStart = yStart + xx * mp_inputChannels L + c;
               xEnd = xStart + mp_regionSize L * mp_inputChannels L + c
           in for_step xStart xEnd (mp_inputChannels L) (\<lambda>x (m, maxIndex, ue).
                lift_result (GVec_get a x) (\<lambda>v.
                lift_result (GVec_set x 0 ue) (\<lambda>ue'.
                Some (Inr (if v > m then (v, x, ue') else (m, maxIndex, ue')))))))
         (- (10 ^ 100), 0, upStreamErr))"

definition GMaxPooling2D_backPropError ::
  "GMaxPooling2D \<Rightarrow> GVec \<Rightarrow> GVec \<Rightarrow> (error + GVec) option" where
  \<comment> \<open>\<open>a\<close> and \<open>upStreamErr\<close> are the activation and the error buffer of the upstream layer;
      the result is the upstream error buffer. The state of the three outer loops is
      \<open>(downPos, upStreamErr)\<close>.\<close>
  "GMaxPooling2D_backPropError L a upStreamErr =
     lift_result (GMaxPooling2D_error L) (\<lambda>downStreamErr.
       case
         for_step 0 (mp_inputRows L) (mp_regionSize L) (\<lambda>yy.
           for_step 0 (mp_inputCols L) (mp_regionSize L) (\<lambda>xx.
             for_step 0 (mp_inputChannels L) 1 (\<lambda>c (downPos, ue).
               case GMaxPooling2D_regionArgMax L a yy xx c ue of
                 None \<Rightarrow> None
               | Some r \<Rightarrow>
                   lift_result r (\<lambda>(m, maxIndex, ue).
                   lift_result (GVec_get downStreamErr downPos) (\<lambda>e.
                   lift_result (GVec_set maxIndex e ue) (\<lambda>ue'.
                   Some (Inr (downPos + 1, ue')))))))) (0, upStreamErr)
       of None \<Rightarrow> None
        | Some r \<Rightarrow> lift_result r (\<lambda>(downPos, ue). Some (Inr ue)))"

section \<open>Weights as vectors and as documents\<close>

text \<open>
  Every layer with weights (a \<^verbatim>\<open>GParameterizedLayer\<close>) can write its weights to a flat
  buffer and read them back, and every layer can be asked for its document. The
  restricted Boltzmann machine and the two-dimensional convolution are modelled as far as
  these operations reach.
\<close>

definition GLayerLinear_weightsToVector :: "GLayerLinear \<Rightarrow> GVec \<times> nat" where
  \<comment> \<open>The doubles written to \<^verbatim>\<open>pOutVector\<close>, in order, and the value returned.\<close>
  "GLayerLinear_weightsToVector L =
     (GMatrix_toVector (lin_weights L), GLayerLinear_countWeights L)"

definition GLayerLinear_vectorToWeights ::
  "GVec \<Rightarrow> GLayerLinear \<Rightarrow> error + GLayerLinear \<times> nat" where
  "GLayerLinear_vectorToWeights v L =
     bind_result (GMatrix_fromVector v (GLayerLinear_inputs L + 1) (lin_weights L)) (\<lambda>W.
       Inr (L\<lparr>lin_weights := W\<rparr>, GLayerLinear_countWeights (L\<lparr>lin_weights := W\<rparr>)))"

definition GLayerLinear_serialize :: "GLayerLinear \<Rightarrow> GDomNode" where
  "GLayerLinear_serialize L =
     GDomNode_addField ''weights'' (GMatrix_serialize (lin_weights L)) (baseDomNode layer_linear)"

definition GLayerLinear_deserialize :: "GDomNode \<Rightarrow> error + GLayerLinear" where
  \<comment> \<open>The constructor \<^verbatim>\<open>GLayerLinear(GDomNode* pNode)\<close>.\<close>
  "GLayerLinear_deserialize pNode =
     bind_result (GDomNode_field pNode ''weights'') (\<lambda>f.
     bind_result (GMatrix_deserialize f) (\<lambda>W.
     Inr \<lparr>lin_weights = W, lin_activation = GMatrix_resize 2 (GMatrix_cols W)\<rparr>))"

record GLayerActivation =
  act_activation :: GMatrix

definition GLayerActivation_serialize :: "LayerType \<Rightarrow> GLayerActivation \<Rightarrow> GDomNode" where
  "GLayerActivation_serialize t L =
     GDomNode_addField ''size'' (GDomNode_newInt (GMatrix_cols (act_activation L))) (baseDomNode t)"

definition GLayerActivation_deserialize :: "GDomNode \<Rightarrow> error + GLayerActivation" where
  \<comment> \<open>The constructor \<^verbatim>\<open>GLayerActivation(GDomNode* pNode)\<close>.\<close>
  "GLayerActivation_deserialize pNode =
     bind_result (GDomNode_size_t pNode ''size'') (\<lambda>n.
     Inr \<lparr>act_activation = GMatrix_resize 2 n\<rparr>)"

definition GLayerMaxOut_serialize :: "GLayerMaxOut \<Rightarrow> error + GDomNode" where
  "GLayerMaxOut_serialize L = Inl (Ex_thrown ''Sorry, not implemented yet'')"

definition GLayerMaxOut_deserialize :: "GDomNode \<Rightarrow> error + GLayerMaxOut" where
  \<comment> \<open>The constructor \<^verbatim>\<open>GLayerMaxOut(GDomNode* pNode)\<close>.\<close>
  "GLayerMaxOut_deserialize pNode = Inl (Ex_thrown ''Sorry, not implemented yet'')"

definition GLayerProductPooling_serialize :: "GLayerProductPooling \<Rightarrow> error + GDomNode" where
  "GLayerProductPooling_serialize L = Inl (Ex_thrown ''Sorry, not implemented yet'')"

definition GLayerAdditionPooling_serialize :: "GLayerAdditionPooling \<Rightarrow> error + GDomNode" where
  "GLayerAdditionPooling_serialize L = Inl (Ex_thrown ''Sorry, not implemented yet'')"

definition GLayerConvolutional1D_serialize :: "GLayerConvolutional1D \<Rightarrow> GDomNode" where
  "GLayerConvolutional1D_serialize L =
     GDomNode_addField ''bias'' (GVec_serialize (c1_bias L))
       (GDomNode_addField ''act'' (GMatrix_serialize (c1_activation L))
         (GDomNode_addField ''kern'' (GMatrix_serialize (c1_kernels L))
           (GDomNode_addField ''kpc'' (GDomNode_newInt (c1_kernelsPerChannel L))
             (GDomNode_addField ''osam'' (GDomNode_newInt (c1_outputSamples L))
               (GDomNode_addField ''ichan'' (GDomNode_newInt (c1_inputChannels L))
                 (GDomNode_addField ''isam'' (GDomNode_newInt (c1_inputSamples L))
                   (baseDomNode layer_convolutional1d)))))))"

definition GLayerConvolutional1D_deserialize :: "GDomNode \<Rightarrow> error + GLayerConvolutional1D" where
  \<comment> \<open>The constructor \<^verbatim>\<open>GLayerConvolutional1D(GDomNode* pNode)\<close>; the members are read in
      the order of their declaration.\<close>
  "GLayerConvolutional1D_deserialize pNode =
     bind_result (GDomNode_size_t pNode ''isam'') (\<lambda>isam.
     bind_result (GDomNode_size_t pNode ''ichan'') (\<lambda>ichan.
     bind_result (GDomNode_size_t pNode ''osam'') (\<lambda>osam.
     bind_result (GDomNode_size_t pNode ''kpc'') (\<lambda>kpc.
     bind_result (bind_result (GDomNode_field pNode ''kern'') GMatrix_deserialize) (\<lambda>kern.
     bind_result (bind_result (GDomNode_field pNode ''act'') GMatrix_deserialize) (\<lambda>act.
     bind_result (bind_result (GDomNode_field pNode ''bias'') GVec_deserialize) (\<lambda>bias.
     Inr \<lparr>c1_inputSamples = isam, c1_inputChannels = ichan, c1_outputSamples = osam,
          c1_kernelsPerChannel = kpc, c1_kernels = kern, c1_activation = act,
          c1_bias = bias\<rparr>)))))))"

record GLayerRestrictedBoltzmannMachine =
  rbm_weights :: GMatrix
  rbm_bias :: GMatrix
  rbm_biasReverse :: GMatrix

definition GLayerRestrictedBoltzmannMachine_inputs :: "GLayerRestrictedBoltzmannMachine \<Rightarrow> nat" where
  "GLayerRestrictedBoltzmannMachine_inputs L = GMatrix_cols (rbm_weights L)"

definition GLayerRestrictedBoltzmannMachine_outputs :: "GLayerRestrictedBoltzmannMachine \<Rightarrow> nat" where
  "GLayerRestrictedBoltzmannMachine_outputs L = GMatrix_rows (rbm_weights L)"

definition GLayerRestrictedBoltzmannMachine_bias ::
  "GLayerRestrictedBoltzmannMachine \<Rightarrow> error + GVec" where
  "GLayerRestrictedBoltzmannMachine_bias L = GMatrix_row (rbm_bias L) 0"

definition GLayerRestrictedBoltzmannMachine_biasReverse ::
  "GLayerRestrictedBoltzmannMachine \<Rightarrow> error + GVec" where
  "GLayerRestrictedBoltzmannMachine_biasReverse L = GMatrix_row (rbm_biasReverse L) 0"

definition GLayerRestrictedBoltzmannMachine_resize ::
  "nat \<Rightarrow> nat \<Rightarrow> GLayerRestrictedBoltzmannMachine \<Rightarrow> GLayerRestrictedBoltzmannMachine" where
  "GLayerRestrictedBoltzmannMachine_resize inputCount outputCount L =
     (if inputCount = GLayerRestrictedBoltzmannMachine_inputs L
         \<and> outputCount = GLayerRestrictedBoltzmannMachine_outputs L then L
      else \<lparr>rbm_weights = GMatrix_resize outputCount inputCount,
            rbm_bias = GMatrix_resize 3 outputCount,
            rbm_biasReverse = GMatrix_resize 3 inputCount\<rparr>)"

definition GLayerRestrictedBoltzmannMachine_serialize ::
  "GLayerRestrictedBoltzmannMachine \<Rightarrow> error + GDomNode" where
  "GLayerRestrictedBoltzmannMachine_serialize L =
     bind_result (GLayerRestrictedBoltzmannMachine_bias L) (\<lambda>b.
     bind_result (GLayerRestrictedBoltzmannMachine_biasReverse L) (\<lambda>br.
     Inr (GDomNode_addField ''biasRev'' (GVec_serialize br)
           (GDomNode_addField ''bias'' (GVec_serialize b)
             (GDomNode_addField ''weights'' (GMatrix_serialize (rbm_weights L))
               (baseDomNode layer_restrictedboltzmannmachine))))))"

definition GLayerRestrictedBoltzmannMachine_deserialize ::
  "GDomNode \<Rightarrow> error + GLayerRestrictedBoltzmannMachine" where
  \<comment> \<open>The constructor \<^verbatim>\<open>GLayerRestrictedBoltzmannMachine(GDomNode* pNode)\<close>:
      \<^verbatim>\<open>bias().deserialize(...)\<close> replaces row 0 of \<^verbatim>\<open>m_bias\<close>, which has 3 rows.\<close>
  "GLayerRestrictedBoltzmannMachine_deserialize pNode =
     bind_result (bind_result (GDomNode_field pNode ''weights'') GMatrix_deserialize) (\<lambda>W.
     bind_result (bind_result (GDomNode_field pNode ''bias'') GVec_deserialize) (\<lambda>b.
     bind_result (bind_result (GDomNode_field pNode ''biasRev'') GVec_deserialize) (\<lambda>br.
     Inr \<lparr>rbm_weights = W,
          rbm_bias = GMatrix_set_row 0 b (GMatrix_resize 3 (GMatrix_rows W)),
          rbm_biasReverse = GMatrix_set_row 0 br (GMatrix_resize 3 (GMatrix_cols W))\<rparr>)))"

definition GLayerRestrictedBoltzmannMachine_weightsToVector ::
  "GLayerRestrictedBoltzmannMachine \<Rightarrow> error + GVec \<times> nat" where
  \<comment> \<open>The doubles written to \<^verbatim>\<open>pOutVector\<close>, in order, and the value returned.\<close>
  "GLayerRestrictedBoltzmannMachine_weightsToVector L =
     bind_result (GLayerRestrictedBoltzmannMachine_bias L) (\<lambda>b.
       if length b < GLayerRestrictedBoltzmannMachine_outputs L then Inl OutOfRange
       else Inr (take (GLayerRestrictedBoltzmannMachine_outputs L) b
                   @ GMatrix_toVector (rbm_weights L),
                 (GLayerRestrictedBoltzmannMachine_inputs L + 1)
                   * GLayerRestrictedBoltzmannMachine_outputs L))"

definition GLayerRestrictedBoltzmannMachine_vectorToWeights ::
  "GVec \<Rightarrow> GLayerRestrictedBoltzmannMachine
     \<Rightarrow> error + GLayerRestrictedBoltzmannMachine \<times> nat" where
  \<comment> \<open>\<open>v\<close> is the buffer behind \<^verbatim>\<open>pVector\<close>. The row count passed to \<^verbatim>\<open>fromVector\<close> is
      \<^verbatim>\<open>inputs()\<close>, the number of columns of \<^verbatim>\<open>m_weights\<close>, as in the source.\<close>
  "GLayerRestrictedBoltzmannMachine_vectorToWeights v L =
     bind_result (GLayerRestrictedBoltzmannMachine_bias L) (\<lambda>b.
       if length v < GLayerRestrictedBoltzmannMachine_outputs L
          \<or> length b < GLayerRestrictedBoltzmannMachine_outputs L then Inl OutOfRange
       else
         bind_result
           (GMatrix_fromVector (drop (GLayerRestrictedBoltzmannMachine_outputs L) v)
              (GLayerRestrictedBoltzmannMachine_inputs L) (rbm_weights L))
           (\<lambda>W.
              let L' = L\<lparr>rbm_weights := W,
                         rbm_bias := GMatrix_set_row 0
                           (take (GLayerRestrictedBoltzmannMachine_outputs L) v
                              @ drop (GLayerRestrictedBoltzmannMachine_outputs L) b)
                           (rbm_bias L)\<rparr>
              in Inr (L', (GLayerRestrictedBoltzmannMachine_inputs L' + 1)
                            * GLayerRestrictedBoltzmannMachine_outputs L')))"

text \<open>
  Of \<^verbatim>\<open>GLayerConvolutional2D\<close> the model keeps the sizes, the weights, the buffers and those
  settings of its image views that the document carries: the stride and padding of the
  input image and the three interlacing flags.
\<close>

record GLayerConvolutional2D =
  c2_width :: nat
  c2_height :: nat
  c2_channels :: nat
  c2_kWidth :: nat
  c2_kHeight :: nat
  c2_outputWidth :: nat
  c2_outputHeight :: nat
  c2_bias :: GVec
  c2_kernels :: GMatrix
  c2_activation :: GMatrix
  c2_strideX :: nat
  c2_strideY :: nat
  c2_paddingX :: nat
  c2_paddingY :: nat
  c2_inputInterlaced :: bool
  c2_kernelsInterlaced :: bool
  c2_outputInterlaced :: bool

definition GLayerConvolutional2D_inputs :: "GLayerConvolutional2D \<Rightarrow> nat" where
  "GLayerConvolutional2D_inputs L = c2_width L * c2_height L * c2_channels L"

definition GLayerConvolutional2D_outputs :: "GLayerConvolutional2D \<Rightarrow> nat" where
  "GLayerConvolutional2D_outputs L = c2_outputWidth L * c2_outputHeight L * length (c2_bias L)"

definition GLayerConvolutional2D_countWeights :: "GLayerConvolutional2D \<Rightarrow> nat" where
  "GLayerConvolutional2D_countWeights L =
     c2_kWidth L * c2_kHeight L * c2_channels L * GMatrix_rows (c2_kernels L)
       + GMatrix_rows (c2_kernels L)"

definition GLayerConvolutional2D_weightsToVector ::
  "GLayerConvolutional2D \<Rightarrow> error + GVec \<times> nat" where
  \<comment> \<open>The kernels first, then \<^verbatim>\<open>put(0, m_bias)\<close> into a view of \<^verbatim>\<open>m_kernels.rows()\<close>
      doubles behind them. The result is the doubles written and the value returned.\<close>
  "GLayerConvolutional2D_weightsToVector L =
     (if GMatrix_rows (c2_kernels L) < length (c2_bias L) then Inl OutOfRange
      else Inr (GMatrix_toVector (c2_kernels L) @ c2_bias L,
                GLayerConvolutional2D_countWeights L))"

definition GLayerConvolutional2D_vectorToWeights ::
  "GVec \<Rightarrow> GLayerConvolutional2D \<Rightarrow> error + GLayerConvolutional2D \<times> nat" where
  \<comment> \<open>\<^verbatim>\<open>m_bias.put(0, view)\<close> copies a view of \<^verbatim>\<open>m_kernels.rows()\<close> doubles over the start of
      the bias.\<close>
  "GLayerConvolutional2D_vectorToWeights v L =
     bind_result
       (GMatrix_fromVector v (GMatrix_rows (c2_kernels L)) (c2_kernels L)) (\<lambda>K.
       if length v < GMatrix_rows K * GMatrix_cols K + GMatrix_rows K then Inl OutOfRange
       else
         bind_result
           (GVec_put 0 (take (GMatrix_rows K) (drop (GMatrix_rows K * GMatrix_cols K) v))
              (c2_bias L))
           (\<lambda>b. Inr (L\<lparr>c2_bias := b, c2_kernels := K\<rparr>,
                       GLayerConvolutional2D_countWeights (L\<lparr>c2_bias := b, c2_kernels := K\<rparr>))))"

definition GLayerConvolutional2D_serialize :: "GLayerConvolutional2D \<Rightarrow> GDomNode" where
  "GLayerConvolutional2D_serialize L =
     GDomNode_addField ''kernels'' (GMatrix_serialize (c2_kernels L))
       (GDomNode_addField ''bias'' (GVec_serialize (c2_bias L))
         (GDomNode_addField ''outputInterlaced'' (DomBool (c2_outputInterlaced L))
           (GDomNode_addField ''kernelsInterlaced'' (DomBool (c2_kernelsInterlaced L))
             (GDomNode_addField ''inputInterlaced'' (DomBool (c2_inputInterlaced L))
               (GDomNode_addField ''outputHeight'' (GDomNode_newInt (c2_outputHeight L))
                 (GDomNode_addField ''outputWidth'' (GDomNode_newInt (c2_outputWidth L))
                   (GDomNode_addField ''paddingY'' (GDomNode_newInt (c2_paddingY L))
                     (GDomNode_addField ''paddingX'' (GDomNode_newInt (c2_paddingX L))
                       (GDomNode_addField ''strideY'' (GDomNode_newInt (c2_strideY L))
                         (GDomNode_addField ''strideX'' (GDomNode_newInt (c2_strideX L))
                           (GDomNode_addField ''kHeight'' (GDomNode_newInt (c2_kHeight L))
                             (GDomNode_addField ''kWidth'' (GDomNode_newInt (c2_kWidth L))
                               (GDomNode_addField ''channels'' (GDomNode_newInt (c2_channels L))
                                 (GDomNode_addField ''height'' (GDomNode_newInt (c2_height L))
                                   (GDomNode_addField ''width'' (GDomNode_newInt (c2_width L))
                                     (baseDomNode layer_convolutional2d))))))))))))))))"

definition GDomNode_bool :: "GDomNode \<Rightarrow> string \<Rightarrow> error + bool" where
  \<comment> \<open>\<^verbatim>\<open>pNode->field(name)->asBool()\<close>\<close>
  "GDomNode_bool node name = bind_result (GDomNode_field node name) GDomNode_asBool"

definition GLayerConvolutional2D_deserialize :: "GDomNode \<Rightarrow> error + GLayerConvolutional2D" where
  \<comment> \<open>The constructor \<^verbatim>\<open>GLayerConvolutional2D(GDomNode* pNode)\<close>: the initialiser list, then
      the body.\<close>
  "GLayerConvolutional2D_deserialize pNode =
     bind_result (GDomNode_size_t pNode ''width'') (\<lambda>width.
     bind_result (GDomNode_size_t pNode ''height'') (\<lambda>height.
     bind_result (GDomNode_size_t pNode ''channels'') (\<lambda>channels.
     bind_result (GDomNode_size_t pNode ''kWidth'') (\<lambda>kWidth.
     bind_result (GDomNode_size_t pNode ''kHeight'') (\<lambda>kHeight.
     bind_result (GDomNode_size_t pNode ''outputWidth'') (\<lambda>outputWidth.
     bind_result (GDomNode_size_t pNode ''outputHeight'') (\<lambda>outputHeight.
     bind_result (bind_result (GDomNode_field pNode ''bias'') GVec_deserialize) (\<lambda>bias.
     bind_result (bind_result (GDomNode_field pNode ''kernels'') GMatrix_deserialize) (\<lambda>kernels.
     bind_result (GDomNode_size_t pNode ''strideX'') (\<lambda>sx.
     bind_result (GDomNode_size_t pNode ''strideY'') (\<lambda>sy.
     bind_result (GDomNode_size_t pNode ''paddingX'') (\<lambda>px.
     bind_result (GDomNode_size_t pNode ''paddingY'') (\<lambda>py.
     bind_result (GDomNode_bool pNode ''inputInterlaced'') (\<lambda>ii.
     bind_result (GDomNode_bool pNode ''kernelsInterlaced'') (\<lambda>ki.
     bind_result (GDomNode_bool pNode ''outputInterlaced'') (\<lambda>oi.
     Inr \<lparr>c2_width = width, c2_height = height, c2_channels = channels,
          c2_kWidth = kWidth, c2_kHeight = kHeight,
          c2_outputWidth = outputWidth, c2_outputHeight = outputHeight,
          c2_bias = bias, c2_kernels = kernels,
          c2_activation = GMatrix_resize 2 (outputWidth * outputHeight * GMatrix_rows kernels),
          c2_strideX = sx, c2_strideY = sy, c2_paddingX = px, c2_paddingY = py,
          c2_inputInterlaced = ii, c2_kernelsInterlaced = ki,
          c2_outputInterlaced = oi\<rparr>))))))))))))))))"

text \<open>
  The layer classes behind the \<^verbatim>\<open>GNeuralNetLayer\<close> interface, as far as they are modelled;
  an activation layer carries the enumerator of its function.
\<close>

datatype GNeuralNetLayer =
    Layer_Activation LayerType GLayerActivation
  | Layer_Linear GLayerLinear
  | Layer_ProductPooling GLayerProductPooling
  | Layer_AdditionPooling GLayerAdditionPooling
  | Layer_MaxOut GLayerMaxOut
  | Layer_RestrictedBoltzmannMachine GLayerRestrictedBoltzmannMachine
  | Layer_Convolutional1D GLayerConvolutional1D
  | Layer_Convolutional2D GLayerConvolutional2D
  | Layer_MaxPooling GMaxPooling2D

fun GNeuralNetLayer_serialize :: "GNeuralNetLayer \<Rightarrow> error + GDomNode" where
  \<comment> \<open>The virtual \<^verbatim>\<open>serialize\<close>.\<close>
  "GNeuralNetLayer_serialize (Layer_Activation t L) = Inr (GLayerActivation_serialize t L)"
| "GNeuralNetLayer_serialize (Layer_Linear L) = Inr (GLayerLinear_serialize L)"
| "GNeuralNetLayer_serialize (Layer_ProductPooling L) = GLayerProductPooling_serialize L"
| "GNeuralNetLayer_serialize (Layer_AdditionPooling L) = GLayerAdditionPooling_serialize L"
| "GNeuralNetLayer_serialize (Layer_MaxOut L) = GLayerMaxOut_serialize L"
| "GNeuralNetLayer_serialize (Layer_RestrictedBoltzmannMachine L) =
     GLayerRestrictedBoltzmannMachine_serialize L"
| "GNeuralNetLayer_serialize (Layer_Convolutional1D L) = Inr (GLayerConvolutional1D_serialize L)"
| "GNeuralNetLayer_serialize (Layer_Convolutional2D L) = Inr (GLayerConvolutional2D_serialize L)"
| "GNeuralNetLayer_serialize (Layer_MaxPooling L) = Inr (GMaxPooling2D_serialize L)"

definition map_result :: "('a \<Rightarrow> 'b) \<Rightarrow> error + 'a \<Rightarrow> error + 'b" where
  "map_result f r = bind_result r (\<lambda>x. Inr (f x))"

definition GNeuralNetLayer_deserialize :: "GDomNode \<Rightarrow> error + GNeuralNetLayer" where
  \<comment> \<open>The static \<^verbatim>\<open>GNeuralNetLayer::deserialize\<close>: a switch on the \<^verbatim>\<open>type\<close> field. The
      message of the default case ends with the number, which is left out here.\<close>
  "GNeuralNetLayer_deserialize pNode =
     bind_result (GDomNode_field pNode ''type'') (\<lambda>f.
     bind_result (GDomNode_asInt f) (\<lambda>e.
       if e = 0 then map_result (Layer_Activation layer_tanh) (GLayerActivation_deserialize pNode)
       else if e = 1 then map_result (Layer_Activation layer_logistic) (GLayerActivation_deserialize pNode)
       else if e = 2 then map_result (Layer_Activation layer_bentidentity) (GLayerActivation_deserialize pNode)
       else if e = 3 then map_result (Layer_Activation layer_softroot) (GLayerActivation_deserialize pNode)
       else if e = 4 then map_result (Layer_Activation layer_sigexp) (GLayerActivation_deserialize pNode)
       else if e = 5 then map_result (Layer_Activation layer_gaussian) (GLayerActivation_deserialize pNode)
       else if e = 6 then map_result (Layer_Activation layer_sine) (GLayerActivation_deserialize pNode)
       else if e = 7 then map_result (Layer_Activation layer_rectifier) (GLayerActivation_deserialize pNode)
       else if e = 8 then map_result (Layer_Activation layer_leakyrectifier) (GLayerActivation_deserialize pNode)
       else if e = 9 then map_result (Layer_Activation layer_softplus) (GLayerActivation_deserialize pNode)
       else if e = 10 then map_result Layer_Linear (GLayerLinear_deserialize pNode)
       else if e = 16 then map_result Layer_RestrictedBoltzmannMachine
                             (GLayerRestrictedBoltzmannMachine_deserialize pNode)
       else if e = 17 then map_result Layer_Convolutional1D (GLayerConvolutional1D_deserialize pNode)
       else if e = 18 then map_result Layer_Convolutional2D (GLayerConvolutional2D_deserialize pNode)
       else Inl (Ex_thrown ''Unrecognized neural network layer type: '')))"

definition size_t_ok :: "nat \<Rightarrow> bool" where
  \<comment> \<open>A value that a 64-bit \<^verbatim>\<open>size_t\<close> holds.\<close>
  "size_t_ok n = (n < 2 ^ 64)"

definition GLayerMaxOut_wf :: "GLayerMaxOut \<Rightarrow> bool" where
  \<comment> \<open>The states that \<^verbatim>\<open>resize\<close> produces.\<close>
  "GLayerMaxOut_wf L =
     (GMatrix_wf (mo_weights L) \<and> GMatrix_wf (mo_bias L) \<and> GMatrix_rows (mo_bias L) = 2
      \<and> GMatrix_cols (mo_bias L) = GMatrix_rows (mo_weights L))"

definition GLayerConvolutional1D_wf :: "GLayerConvolutional1D \<Rightarrow> bool" where
  \<comment> \<open>The states that the constructor produces: one bias per kernel, and sizes that a
      document can hold.\<close>
  "GLayerConvolutional1D_wf L =
     (GMatrix_wf (c1_kernels L) \<and> length (c1_bias L) = GMatrix_rows (c1_kernels L)
      \<and> size_t_ok (c1_inputSamples L) \<and> size_t_ok (c1_inputChannels L)
      \<and> size_t_ok (c1_outputSamples L) \<and> size_t_ok (c1_kernelsPerChannel L))"

definition GLayerRestrictedBoltzmannMachine_wf :: "GLayerRestrictedBoltzmannMachine \<Rightarrow> bool" where
  \<comment> \<open>The states that \<^verbatim>\<open>resize\<close> and the deserializing constructor produce.\<close>
  "GLayerRestrictedBoltzmannMachine_wf L =
     (GMatrix_rows (rbm_bias L) = 3 \<and> GMatrix_rows (rbm_biasReverse L) = 3)"

definition GLayerConvolutional2D_wf :: "GLayerConvolutional2D \<Rightarrow> bool" where
  \<comment> \<open>The states that the constructors produce: one bias per kernel, and sizes that a
      document can hold.\<close>
  "GLayerConvolutional2D_wf L =
     (GMatrix_wf (c2_kernels L) \<and> length (c2_bias L) = GMatrix_rows (c2_kernels L)
      \<and> GMatrix_cols (c2_kernels L) = c2_kWidth L * c2_kHeight L * c2_channels L
      \<and> size_t_ok (c2_width L) \<and> size_t_ok (c2_height L) \<and> size_t_ok (c2_channels L)
      \<and> size_t_ok (c2_kWidth L) \<and> size_t_ok (c2_kHeight L)
      \<and> size_t_ok (c2_outputWidth L) \<and> size_t_ok (c2_outputHeight L)
      \<and> size_t_ok (c2_strideX L) \<and> size_t_ok (c2_strideY L)
      \<and> size_t_ok (c2_paddingX L) \<and> size_t_ok (c2_paddingY L))"

text \<open>One small layer of each remaining kind with weights, used to exercise the theorems.\<close>

definition GLayerConvolutional1D_example :: GLayerConvolutional1D where
  \<comment> \<open>10 samples of 1 channel, 1 kernel of width 3.\<close>
  "GLayerConvolutional1D_example =
     \<lparr>c1_inputSamples = 10, c1_inputChannels = 1, c1_outputSamples = 8,
      c1_kernelsPerChannel = 1,
      c1_kernels = \<lparr>m_cols = 3, m_rows = [[1, 2, 3]]\<rparr>,
      c1_activation = GMatrix_resize 2 8,
      c1_bias = [100]\<rparr>"

definition GLayerRestrictedBoltzmannMachine_example :: GLayerRestrictedBoltzmannMachine where
  \<comment> \<open>2 visible units, 1 hidden unit.\<close>
  "GLayerRestrictedBoltzmannMachine_example =
     \<lparr>rbm_weights = \<lparr>m_cols = 2, m_rows = [[1, 2]]\<rparr>,
      rbm_bias = \<lparr>m_cols = 1, m_rows = [[3], [0], [0]]\<rparr>,
      rbm_biasReverse = \<lparr>m_cols = 2, m_rows = [[4, 5], [0, 0], [0, 0]]\<rparr>\<rparr>"

definition GLayerConvolutional2D_example :: GLayerConvolutional2D where
  \<comment> \<open>A 3-by-3 single-channel input and one 2-by-2 kernel, with the settings that the
      general-purpose constructor gives.\<close>
  "GLayerConvolutional2D_example =
     \<lparr>c2_width = 3, c2_height = 3, c2_channels = 1, c2_kWidth = 2, c2_kHeight = 2,
      c2_outputWidth = 2, c2_outputHeight = 2,
      c2_bias = [5],
      c2_kernels = \<lparr>m_cols = 4, m_rows = [[1, 2, 3, 4]]\<rparr>,
      c2_activation = GMatrix_resize 2 4,
      c2_strideX = 1, c2_strideY = 1, c2_paddingX = 0, c2_paddingY = 0,
      c2_inputInterlaced = True, c2_kernelsInterlaced = True, c2_outputInterlaced = True\<rparr>"

section \<open>Theorems\<close>

subsection \<open>Loops and vector primitives\<close>

lemma and_one_nat_odd: "(and (n::nat) 1 = 1) = odd n"
  by (simp add: and_one_eq mod_2_eq_odd)

lemma bind_result_Inr [simp]: "bind_result (Inr x) f = f x"
  by (simp add: bind_result_def)

lemma bind_result_Inl [simp]: "bind_result (Inl e) f = Inl e"
  by (simp add: bind_result_def)

lemma for_each_append:
  "for_each (xs @ ys) body s = bind_result (for_each xs body s) (for_each ys body)"
proof (induction xs arbitrary: s)
  case Nil
  show ?case by simp
next
  case (Cons x xs)
  show ?case
    by (cases "body x s") (simp_all add: Cons.IH)
qed

lemma for_each_upt_invariant:
  assumes init: "I 0 s"
    and step: "\<And>k t. k < n \<Longrightarrow> I k t \<Longrightarrow> \<exists>t'. body k t = Inr t' \<and> I (Suc k) t'"
  shows "\<exists>s'. for_each [0..<n] body s = Inr s' \<and> I n s'"
  using step
proof (induction n)
  case 0
  show ?case using init by simp
next
  case (Suc n)
  have "\<exists>s'. for_each [0..<n] body s = Inr s' \<and> I n s'"
    by (rule Suc.IH) (simp add: Suc.prems)
  then obtain s1 where s1: "for_each [0..<n] body s = Inr s1" "I n s1"
    by blast
  obtain s2 where s2: "body n s1 = Inr s2" "I (Suc n) s2"
    using Suc.prems [of n s1] s1(2) by auto
  show ?case
    using s1 s2 by (simp add: for_each_append)
qed

lemma GVec_addScaled_Inr:
  assumes len: "length this \<le> length that"
  shows "GVec_addScaled c that this = Inr (map (\<lambda>i. this ! i + c * that ! i) [0..<length this])"
proof -
  define n where "n = length this"
  define I where "I = (\<lambda>k (v::GVec). length v = n \<and>
      (\<forall>i<n. v ! i = (if i < k then this ! i + c * that ! i else this ! i)))"
  have "\<exists>v. for_each [0..<n] (\<lambda>i v.
       bind_result (GVec_get that i) (\<lambda>x. GVec_set i (v ! i + c * x) v)) this = Inr v \<and> I n v"
  proof (rule for_each_upt_invariant)
    show "I 0 this" by (simp add: I_def n_def)
  next
    fix k t assume "k < n" "I k t"
    then show "\<exists>t'. bind_result (GVec_get that k) (\<lambda>x. GVec_set k (t ! k + c * x) t) = Inr t'
        \<and> I (Suc k) t'"
      using len by (auto simp add: I_def n_def GVec_get_def GVec_set_def nth_list_update less_Suc_eq)
  qed
  then obtain v where v: "GVec_addScaled c that this = Inr v" "I n v"
    by (auto simp add: GVec_addScaled_def n_def)
  have "v = map (\<lambda>i. this ! i + c * that ! i) [0..<length this]"
    using v(2) by (intro nth_equalityI) (simp_all add: I_def n_def)
  then show ?thesis using v(1) by simp
qed

lemma GVec_dotProduct_Inr:
  assumes len: "length this \<le> length that"
  shows "GVec_dotProduct this that = Inr (\<Sum>i<length this. this ! i * that ! i)"
proof -
  define I where "I = (\<lambda>k (s::real). s = (\<Sum>i<k. this ! i * that ! i))"
  have "\<exists>s. for_each [0..<length this] (\<lambda>i s.
       bind_result (GVec_get that i) (\<lambda>x. Inr (s + this ! i * x))) 0 = Inr s \<and> I (length this) s"
  proof (rule for_each_upt_invariant)
    show "I 0 0" by (simp add: I_def)
  next
    fix k t assume "k < length this" "I k t"
    then show "\<exists>t'. bind_result (GVec_get that k) (\<lambda>x. Inr (t + this ! k * x)) = Inr t'
        \<and> I (Suc k) t'"
      using len by (simp add: I_def GVec_get_def)
  qed
  then show ?thesis
    by (auto simp add: GVec_dotProduct_def I_def)
qed

subsection \<open>The fully connected layer\<close>

lemma GLayerLinear_feedForward_correct:
  assumes wf: "GLayerLinear_wf L" and len: "length inp = GLayerLinear_inputs L"
  shows "\<exists>L' a b. GLayerLinear_feedForward inp L = Inr L'
      \<and> GLayerLinear_activation L' = Inr a \<and> GLayerLinear_bias L = Inr b
      \<and> length a = GLayerLinear_outputs L
      \<and> (\<forall>j<GLayerLinear_outputs L.
            a ! j = b ! j + (\<Sum>i<GLayerLinear_inputs L. inp ! i * m_rows (lin_weights L) ! i ! j))
      \<and> lin_weights L' = lin_weights L
      \<and> GLayerLinear_error L' = GLayerLinear_error L"
proof -
  define W where "W = m_rows (lin_weights L)"
  define outs where "outs = GLayerLinear_outputs L"
  define n where "n = GLayerLinear_inputs L"
  define b where "b = last W"
  have Wne: "W \<noteq> []" and n: "n = length W - 1" and nlt: "n < length W"
    using wf by (auto simp add: GLayerLinear_wf_def GMatrix_rows_def W_def n_def
        GLayerLinear_inputs_def)
  have rowlen: "\<And>i. i < length W \<Longrightarrow> length (W ! i) = outs"
    using wf by (simp add: GLayerLinear_wf_def GMatrix_wf_def W_def outs_def
        GLayerLinear_outputs_def GMatrix_cols_def list_all_length)
  have blen: "length b = outs"
    using rowlen [of "length W - 1"] Wne by (simp add: b_def last_conv_nth)
  have act2: "length (m_rows (lin_activation L)) = 2"
    using wf by (simp add: GLayerLinear_wf_def GMatrix_rows_def)
  define I where "I = (\<lambda>k (a::GVec). length a = outs \<and>
      (\<forall>j<outs. a ! j = b ! j + (\<Sum>i<k. inp ! i * W ! i ! j)))"
  define body where "body = (\<lambda>i a.
          bind_result (GVec_get inp i) (\<lambda>x.
          bind_result (GMatrix_row (lin_weights L) i) (\<lambda>w.
          GVec_addScaled x w a)))"
  have "\<exists>a. for_each [0..<n] body b = Inr a \<and> I n a"
  proof (rule for_each_upt_invariant)
    show "I 0 b" by (simp add: I_def blen)
  next
    fix k t assume k: "k < n" and t: "I k t"
    have "body k t = GVec_addScaled (inp ! k) (W ! k) t"
      using k len nlt by (simp add: body_def GVec_get_def GMatrix_row_def n_def W_def)
    also have "\<dots> = Inr (map (\<lambda>j. t ! j + inp ! k * W ! k ! j) [0..<length t])"
      using k nlt t rowlen [of k] by (intro GVec_addScaled_Inr) (simp add: I_def)
    finally have eq: "body k t = Inr (map (\<lambda>j. t ! j + inp ! k * W ! k ! j) [0..<length t])" .
    have "I (Suc k) (map (\<lambda>j. t ! j + inp ! k * W ! k ! j) [0..<length t])"
      using t by (simp add: I_def)
    then show "\<exists>t'. body k t = Inr t' \<and> I (Suc k) t'"
      using eq by simp
  qed
  then obtain a where a: "for_each [0..<n] body b = Inr a" "I n a"
    by blast
  have act: "GLayerLinear_activation L = Inr (m_rows (lin_activation L) ! 0)"
    using act2 by (simp add: GLayerLinear_activation_def GMatrix_row_def)
  have bias: "GLayerLinear_bias L = Inr b"
    using Wne by (simp add: GLayerLinear_bias_def W_def b_def)
  have ff: "GLayerLinear_feedForward inp L
      = Inr (L\<lparr>lin_activation := GMatrix_set_row 0 a (lin_activation L)\<rparr>)"
    unfolding GLayerLinear_feedForward_def body_def [symmetric] n_def [symmetric]
    by (simp add: act bias a(1))
  show ?thesis
    using a(2) ff bias act2
    by (auto simp add: I_def GLayerLinear_activation_def GLayerLinear_error_def GMatrix_row_def
        GMatrix_set_row_def W_def outs_def n_def)
qed

lemma GLayerLinear_backPropError_correct:
  assumes wf: "GLayerLinear_wf L" and le: "inputCount \<le> GLayerLinear_inputs L"
    and len: "length upStreamError = inputCount"
  shows "\<exists>ue err. GLayerLinear_backPropError L inputCount upStreamError = Inr ue
      \<and> GLayerLinear_error L = Inr err
      \<and> length ue = inputCount
      \<and> (\<forall>i<inputCount.
            ue ! i = (\<Sum>j<GLayerLinear_outputs L. err ! j * m_rows (lin_weights L) ! i ! j))"
proof -
  define W where "W = m_rows (lin_weights L)"
  define outs where "outs = GLayerLinear_outputs L"
  define err where "err = m_rows (lin_activation L) ! 1"
  have nlt: "GLayerLinear_inputs L < length W"
    using wf by (auto simp add: GLayerLinear_wf_def GMatrix_rows_def W_def
        GLayerLinear_inputs_def)
  have rowlen: "\<And>i. i < length W \<Longrightarrow> length (W ! i) = outs"
    using wf by (simp add: GLayerLinear_wf_def GMatrix_wf_def W_def outs_def
        GLayerLinear_outputs_def GMatrix_cols_def list_all_length)
  have act2: "length (m_rows (lin_activation L)) = 2"
    using wf by (simp add: GLayerLinear_wf_def GMatrix_rows_def)
  have errlen: "length err = outs"
    using wf act2 by (simp add: GLayerLinear_wf_def GMatrix_wf_def err_def outs_def
        GLayerLinear_outputs_def GMatrix_cols_def list_all_length)
  have err: "GLayerLinear_error L = Inr err"
    using act2 by (simp add: GLayerLinear_error_def GMatrix_row_def err_def)
  define I where "I = (\<lambda>k (u::GVec). length u = inputCount \<and>
      (\<forall>i<k. u ! i = (\<Sum>j<outs. err ! j * W ! i ! j)))"
  define body where "body = (\<lambda>i ue.
         bind_result (GMatrix_row (lin_weights L) i) (\<lambda>w.
         bind_result (GVec_dotProduct err w) (\<lambda>d.
         GVec_set i d ue)))"
  have "\<exists>u. for_each [0..<inputCount] body upStreamError = Inr u \<and> I inputCount u"
  proof (rule for_each_upt_invariant)
    show "I 0 upStreamError" by (simp add: I_def len)
  next
    fix k t assume k: "k < inputCount" and t: "I k t"
    have kW: "k < length W" using k le nlt by simp
    have dot: "GVec_dotProduct err (W ! k) = Inr (\<Sum>j<outs. err ! j * W ! k ! j)"
      using GVec_dotProduct_Inr [of err "W ! k"] rowlen [OF kW] errlen by simp
    have "body k t = Inr (t[k := (\<Sum>j<outs. err ! j * W ! k ! j)])"
      using k kW t dot by (simp add: body_def GMatrix_row_def W_def [symmetric] GVec_set_def I_def)
    moreover have "I (Suc k) (t[k := (\<Sum>j<outs. err ! j * W ! k ! j)])"
      using t k by (auto simp add: I_def nth_list_update less_Suc_eq)
    ultimately show "\<exists>t'. body k t = Inr t' \<and> I (Suc k) t'"
      by simp
  qed
  then obtain u where u: "for_each [0..<inputCount] body upStreamError = Inr u" "I inputCount u"
    by blast
  have "GLayerLinear_backPropError L inputCount upStreamError = Inr u"
    unfolding GLayerLinear_backPropError_def by (simp add: err u(1) [unfolded body_def])
  then show ?thesis
    using u(2) err by (simp add: I_def W_def outs_def)
qed

lemma delta_run:
  fixes g :: "real \<Rightarrow> real"
  assumes errlen: "outs \<le> length err" and room: "p0 + outs \<le> length d0"
  shows "\<exists>d. for_each [0..<outs] (\<lambda>j (p, d).
              bind_result (GVec_get err j) (\<lambda>e.
              bind_result (add_at p (g e) d) (\<lambda>d'. Inr (p + 1, d')))) (p0, d0) = Inr (p0 + outs, d)
      \<and> length d = length d0
      \<and> (\<forall>k<length d0. d ! k
            = (if p0 \<le> k \<and> k < p0 + outs then d0 ! k + g (err ! (k - p0)) else d0 ! k))"
proof -
  define I where "I = (\<lambda>j (pd :: nat \<times> GVec). fst pd = p0 + j \<and> length (snd pd) = length d0
      \<and> (\<forall>k<length d0. snd pd ! k
            = (if p0 \<le> k \<and> k < p0 + j then d0 ! k + g (err ! (k - p0)) else d0 ! k)))"
  define body where "body = (\<lambda>j (p, d).
              bind_result (GVec_get err j) (\<lambda>e.
              bind_result (add_at p (g e) d) (\<lambda>d'. Inr (p + 1, d'))))"
  have "\<exists>pd. for_each [0..<outs] body (p0, d0) = Inr pd \<and> I outs pd"
  proof (rule for_each_upt_invariant)
    show "I 0 (p0, d0)" by (simp add: I_def)
  next
    fix j t assume j: "j < outs" and t: "I j t"
    obtain p d where pd: "t = (p, d)" by (cases t)
    have p: "p = p0 + j" and dl: "length d = length d0" using t pd by (simp_all add: I_def)
    have "body j t = Inr (p + 1, d[p := d ! p + g (err ! j)])"
      using j errlen room p dl by (simp add: body_def pd GVec_get_def add_at_def)
    moreover have "I (Suc j) (p + 1, d[p := d ! p + g (err ! j)])"
      using t pd j room by (auto simp add: I_def nth_list_update)
    ultimately show "\<exists>t'. body j t = Inr t' \<and> I (Suc j) t'"
      by simp
  qed
  then obtain pd where pd: "for_each [0..<outs] body (p0, d0) = Inr pd" "I outs pd"
    by blast
  obtain p d where split: "pd = (p, d)" by (cases pd)
  have "for_each [0..<outs] body (p0, d0) = Inr (p0 + outs, d)"
    using pd split by (simp add: I_def)
  moreover have "length d = length d0"
    using pd(2) split by (simp add: I_def)
  moreover have "\<forall>k<length d0. d ! k
      = (if p0 \<le> k \<and> k < p0 + outs then d0 ! k + g (err ! (k - p0)) else d0 ! k)"
    using pd(2) split by (simp add: I_def)
  ultimately show ?thesis
    unfolding body_def by blast
qed

lemma block_div_mod:
  fixes k :: nat
  assumes "i * outs \<le> k" and "k < i * outs + outs"
  shows "k div outs = i" and "k mod outs = k - i * outs"
proof -
  have pos: "0 < outs" using assms by (cases outs) auto
  define r where "r = k - i * outs"
  have r: "k = i * outs + r" "r < outs"
    using assms by (simp_all add: r_def)
  show "k div outs = i" using r pos by simp
  show "k mod outs = k - i * outs" using r pos by simp
qed

lemma GLayerLinear_updateDeltas_correct:
  assumes wf: "GLayerLinear_wf L"
    and uplen: "length up = GLayerLinear_inputs L"
    and dlen: "length deltas = GLayerLinear_countWeights L"
  shows "\<exists>d err. GLayerLinear_updateDeltas L up deltas = Inr d
      \<and> GLayerLinear_error L = Inr err
      \<and> length d = length deltas
      \<and> (\<forall>i<GLayerLinear_inputs L. \<forall>j<GLayerLinear_outputs L.
            d ! (i * GLayerLinear_outputs L + j)
              = deltas ! (i * GLayerLinear_outputs L + j) + up ! i * err ! j)
      \<and> (\<forall>j<GLayerLinear_outputs L.
            d ! (GLayerLinear_inputs L * GLayerLinear_outputs L + j)
              = deltas ! (GLayerLinear_inputs L * GLayerLinear_outputs L + j) + err ! j)"
proof -
  define outs where "outs = GLayerLinear_outputs L"
  define ins where "ins = GLayerLinear_inputs L"
  define err where "err = m_rows (lin_activation L) ! 1"
  have act2: "length (m_rows (lin_activation L)) = 2"
    using wf by (simp add: GLayerLinear_wf_def GMatrix_rows_def)
  have errlen: "length err = outs"
    using wf act2 by (simp add: GLayerLinear_wf_def GMatrix_wf_def err_def outs_def
        GLayerLinear_outputs_def GMatrix_cols_def list_all_length)
  have err: "GLayerLinear_error L = Inr err"
    using act2 by (simp add: GLayerLinear_error_def GMatrix_row_def err_def)
  have total: "length deltas = ins * outs + outs"
    using dlen by (simp add: GLayerLinear_countWeights_def ins_def outs_def)
  define inner where "inner = (\<lambda>(act::real) j (p, d).
              bind_result (GVec_get err j) (\<lambda>e.
              bind_result (add_at p (e * act) d) (\<lambda>d'. Inr (p + 1, d'))))"
  define body where "body = (\<lambda>i pd.
          bind_result (GVec_get up i) (\<lambda>act. for_each [0..<outs] (inner act) pd))"
  define I where "I = (\<lambda>i (pd :: nat \<times> GVec). fst pd = i * outs \<and> length (snd pd) = length deltas
      \<and> (\<forall>k<length deltas. snd pd ! k
            = (if k < i * outs then deltas ! k + up ! (k div outs) * err ! (k mod outs)
               else deltas ! k)))"
  have "\<exists>pd. for_each [0..<ins] body (0, deltas) = Inr pd \<and> I ins pd"
  proof (rule for_each_upt_invariant)
    show "I 0 (0, deltas)" by (simp add: I_def)
  next
    fix i t assume i: "i < ins" and t: "I i t"
    obtain p d where pd: "t = (p, d)" by (cases t)
    have p: "p = i * outs" and dl: "length d = length deltas"
      and dv: "\<forall>k<length deltas. d ! k
            = (if k < i * outs then deltas ! k + up ! (k div outs) * err ! (k mod outs)
               else deltas ! k)"
      using t pd by (simp_all add: I_def)
    have "(i + 1) * outs \<le> ins * outs" using i by (intro mult_le_mono1) simp
    then have blk: "i * outs + outs \<le> ins * outs" by (simp only: add_mult_distrib mult_1)
    have room: "i * outs + outs \<le> length d" using blk dl total by linarith
    have "\<exists>d'. for_each [0..<outs] (inner (up ! i)) (i * outs, d) = Inr (i * outs + outs, d')
        \<and> length d' = length d
        \<and> (\<forall>k<length d. d' ! k
            = (if i * outs \<le> k \<and> k < i * outs + outs then d ! k + err ! (k - i * outs) * up ! i
               else d ! k))"
      using delta_run [where g = "\<lambda>e. e * up ! i" and err = err and outs = outs
          and ?p0.0 = "i * outs" and ?d0.0 = d, OF eq_imp_le [OF errlen [symmetric]] room]
      unfolding inner_def by simp
    then obtain d' where d': "for_each [0..<outs] (inner (up ! i)) (i * outs, d) = Inr (i * outs + outs, d')"
        "length d' = length d"
        "\<forall>k<length d. d' ! k
            = (if i * outs \<le> k \<and> k < i * outs + outs then d ! k + err ! (k - i * outs) * up ! i
               else d ! k)"
      by (elim exE conjE)
    have "body i t = Inr (i * outs + outs, d')"
      using i uplen d'(1) by (simp add: body_def pd p GVec_get_def ins_def)
    moreover have "I (Suc i) (i * outs + outs, d')"
      unfolding I_def
    proof (intro conjI allI impI)
      show "fst (i * outs + outs, d') = Suc i * outs" by simp
      show "length (snd (i * outs + outs, d')) = length deltas" using d'(2) dl by simp
      fix k assume k: "k < length deltas"
      show "snd (i * outs + outs, d') ! k
          = (if k < Suc i * outs then deltas ! k + up ! (k div outs) * err ! (k mod outs)
             else deltas ! k)"
      proof (cases "i * outs \<le> k \<and> k < i * outs + outs")
        case True
        then have "k div outs = i" "k mod outs = k - i * outs"
          using block_div_mod [of i outs k] by simp_all
        then show ?thesis using True d'(3) dv k dl by simp
      next
        case False
        then show ?thesis using d'(3) dv k dl by auto
      qed
    qed
    ultimately show "\<exists>t'. body i t = Inr t' \<and> I (Suc i) t'"
      by simp
  qed
  then obtain pd where pd: "for_each [0..<ins] body (0, deltas) = Inr pd" "I ins pd"
    by blast
  obtain p d1 where split: "pd = (p, d1)" by (cases pd)
  have p: "p = ins * outs" and d1l: "length d1 = length deltas"
    and d1v: "\<forall>k<length deltas. d1 ! k
            = (if k < ins * outs then deltas ! k + up ! (k div outs) * err ! (k mod outs)
               else deltas ! k)"
    using pd(2) split by (simp_all add: I_def)
  have room1: "ins * outs + outs \<le> length d1" using d1l total by simp
  have "\<exists>d2. for_each [0..<outs] (\<lambda>j (p, d).
          bind_result (GVec_get err j) (\<lambda>e.
          bind_result (add_at p e d) (\<lambda>d'. Inr (p + 1, d')))) (ins * outs, d1)
          = Inr (ins * outs + outs, d2)
      \<and> length d2 = length d1
      \<and> (\<forall>k<length d1. d2 ! k
            = (if ins * outs \<le> k \<and> k < ins * outs + outs then d1 ! k + err ! (k - ins * outs)
               else d1 ! k))"
    using delta_run [where g = "\<lambda>e. e" and err = err and outs = outs
        and ?p0.0 = "ins * outs" and ?d0.0 = d1, OF eq_imp_le [OF errlen [symmetric]] room1]
    by simp
  then obtain d2 where d2: "for_each [0..<outs] (\<lambda>j (p, d).
          bind_result (GVec_get err j) (\<lambda>e.
          bind_result (add_at p e d) (\<lambda>d'. Inr (p + 1, d')))) (ins * outs, d1)
          = Inr (ins * outs + outs, d2)"
      "length d2 = length d1"
      "\<forall>k<length d1. d2 ! k
            = (if ins * outs \<le> k \<and> k < ins * outs + outs then d1 ! k + err ! (k - ins * outs)
               else d1 ! k)"
    by (elim exE conjE)
  have run: "GLayerLinear_updateDeltas L up deltas = Inr d2"
    unfolding GLayerLinear_updateDeltas_def
    using pd(1) d2(1)
    by (simp add: err body_def inner_def split p ins_def outs_def)
  have weights: "\<forall>i<ins. \<forall>j<outs. d2 ! (i * outs + j) = deltas ! (i * outs + j) + up ! i * err ! j"
  proof (intro allI impI)
    fix i j assume i: "i < ins" and j: "j < outs"
    have "(i + 1) * outs \<le> ins * outs" using i by (intro mult_le_mono1) simp
    then have "i * outs + outs \<le> ins * outs" by (simp only: add_mult_distrib mult_1)
    then have lt: "i * outs + j < ins * outs" using j by linarith
    then have k: "i * outs + j < length deltas" using total by simp
    have "d2 ! (i * outs + j) = d1 ! (i * outs + j)"
      using d2(3) d1l k lt by simp
    also have "\<dots> = deltas ! (i * outs + j) + up ! i * err ! j"
      using d1v k lt j by simp
    finally show "d2 ! (i * outs + j) = deltas ! (i * outs + j) + up ! i * err ! j" .
  qed
  have biases: "\<forall>j<outs. d2 ! (ins * outs + j) = deltas ! (ins * outs + j) + err ! j"
    using d2(3) d1l d1v total by simp
  show ?thesis
    using run err d2(2) d1l weights biases
    by (simp add: ins_def outs_def)
qed

subsection \<open>The logistic activation\<close>

lemma square_bound:
  fixes y :: real
  assumes "0 \<le> y" and "y \<le> c" and "c * c \<le> d"
  shows "y\<^sup>2 \<le> d"
proof -
  have "y * y \<le> c * c" using assms(1,2) by (intro mult_mono) simp_all
  then show ?thesis using assms(3) by (simp add: power2_eq_square)
qed

lemma exp_1_bound: "exp (1::real) \<le> 2745 / 1000"
proof -
  define a :: real where "a = exp (1 / 64)"
  have a0: "0 \<le> a" by (simp add: a_def)
  have a1: "a \<le> 4161 / 4096"
    using exp_bound [of "1 / 64"] by (simp add: a_def power2_eq_square)
  have a2: "a\<^sup>2 \<le> 1032 / 1000"
    by (rule square_bound [OF a0 a1]) simp
  have a4: "(a\<^sup>2)\<^sup>2 \<le> 10651 / 10000"
    by (rule square_bound [OF _ a2]) simp_all
  have a8: "((a\<^sup>2)\<^sup>2)\<^sup>2 \<le> 11345 / 10000"
    by (rule square_bound [OF _ a4]) simp_all
  have a16: "(((a\<^sup>2)\<^sup>2)\<^sup>2)\<^sup>2 \<le> 12871 / 10000"
    by (rule square_bound [OF _ a8]) simp_all
  have a32: "((((a\<^sup>2)\<^sup>2)\<^sup>2)\<^sup>2)\<^sup>2 \<le> 16567 / 10000"
    by (rule square_bound [OF _ a16]) simp_all
  have a64: "(((((a\<^sup>2)\<^sup>2)\<^sup>2)\<^sup>2)\<^sup>2)\<^sup>2 \<le> 2745 / 1000"
    by (rule square_bound [OF _ a32]) simp_all
  have "(((((a\<^sup>2)\<^sup>2)\<^sup>2)\<^sup>2)\<^sup>2)\<^sup>2 = a ^ 64"
    by (simp add: power_mult [symmetric])
  moreover have "exp (1::real) = a ^ 64"
    using exp_of_nat_mult [of 64 "1 / 64 :: real"] by (simp add: a_def)
  ultimately show ?thesis using a64 by simp
qed

lemma exp_700_bound: "exp (700::real) + 1 < DBL_MAX"
proof -
  define x :: real where "x = exp 1"
  have x0: "0 \<le> x" by (simp add: x_def)
  have "x ^ 7 \<le> (2745 / 1000) ^ 7"
    using exp_1_bound x0 unfolding x_def by (intro power_mono)
  also have "\<dots> \<le> 1175"
    by (simp add: power_divide divide_simps)
  finally have x7: "x ^ 7 \<le> 1175" .
  have "(x ^ 7) ^ 5 \<le> 1175 ^ 5"
    using x7 x0 by (intro power_mono) simp_all
  also have "\<dots> < (2::real) ^ 51"
    by simp
  finally have x35: "(x ^ 7) ^ 5 < 2 ^ 51" .
  have "((x ^ 7) ^ 5) ^ 20 < ((2::real) ^ 51) ^ 20"
    using x35 x0 by (intro power_strict_mono) simp_all
  then have x700: "x ^ 700 < 2 ^ 1020"
    by (simp add: power_mult [symmetric])
  have "exp (700::real) = x ^ 700"
    using exp_of_nat_mult [of 700 "1::real"] by (simp add: x_def)
  then have e: "exp (700::real) < 2 ^ 1020"
    using x700 by simp
  have one: "(1::real) \<le> 2 ^ 1020"
    by (rule one_le_power) simp
  have split: "(2::real) ^ 1023 = 2 ^ 1020 * 2 ^ 3"
    by (simp add: power_add [symmetric])
  have "exp (700::real) + 1 < 2 ^ 1020 * 2 ^ 3"
    using e one by simp
  then have lt: "exp (700::real) + 1 < 2 ^ 1023"
    using split by simp
  have "(1::real) \<le> 2 - 1 / 2 ^ 52"
    by simp
  then have "1 * (2::real) ^ 1023 \<le> (2 - 1 / 2 ^ 52) * 2 ^ 1023"
    by (intro mult_right_mono) simp_all
  then show ?thesis
    using lt unfolding DBL_MAX_def by linarith
qed

subsection \<open>The one-dimensional convolutional layer\<close>

lemmas conv1d_defs = GLayerConvolutional1D_new_def GLayerConvolutional1D_outputs_def
  GLayerConvolutional1D_vectorToWeights_def GLayerConvolutional1D_feedForward_def
  GLayerConvolutional1D_channelLoop_def GLayerConvolutional1D_kernelLoop_def
  GLayerConvolutional1D_connections_def GLayerConvolutional1D_activation_def
  GMatrix_resize_def GMatrix_rows_def GMatrix_cols_def GMatrix_row_def GMatrix_set_row_def
  GMatrix_fromVector_def GVec_put_def GVec_get_def add_at_def

lemma upt_8: "[0..<8] = [0, 1, 2, 3, 4, 5, 6, 7]"
  by (simp add: upt_rec)

lemma upt_3: "[0..<3] = [0, 1, 2]"
  by (simp add: upt_rec)

subsection \<open>Unfolding the maxout and max pooling layers\<close>

lemmas maxout_defs = GLayerMaxOut_feedForward_def GLayerMaxOut_explore_def GLayerMaxOut_best_def
  GLayerMaxOut_candidate_def GLayerMaxOut_bias_def GLayerMaxOut_activation_def
  GLayerMaxOut_inputs_def GLayerMaxOut_outputs_def GLayerMaxOut_example_def
  GMatrix_get_def GMatrix_row_def GMatrix_rows_def GMatrix_cols_def GMatrix_set_row_def
  GVec_get_def GVec_set_def GIndexVec_set_def c_rand_def

lemmas maxpool_defs = GMaxPooling2D_new_def GMaxPooling2D_feedForward_def
  GMaxPooling2D_regionMax_def GMaxPooling2D_backPropError_def GMaxPooling2D_regionArgMax_def
  GMaxPooling2D_activation_def GMaxPooling2D_error_def lift_result_def
  GMatrix_resize_def GMatrix_row_def GMatrix_set_row_def GVec_get_def GVec_set_def

lemma replicate_2: "replicate 2 x = [x, x]"
  by (simp add: numeral_2_eq_2)

lemma replicate_4: "replicate 4 x = [x, x, x, x]"
  by (simp add: eval_nat_numeral)

subsection \<open>Weights as vectors and as documents\<close>

lemma blocks_of_concat:
  assumes "list_all (\<lambda>r. length r = c) rs"
  shows "map (\<lambda>i. take c (drop (i * c) (concat rs @ rest))) [0..<length rs] = rs"
  using assms
proof (induction rs)
  case Nil
  show ?case by simp
next
  case (Cons r rs)
  have len: "length r = c" and tl: "list_all (\<lambda>r. length r = c) rs"
    using Cons.prems by simp_all
  have "map (\<lambda>i. take c (drop (i * c) (concat (r # rs) @ rest))) [0..<length (r # rs)]
      = take c (r @ concat rs @ rest)
        # map (\<lambda>i. take c (drop (Suc i * c) (r @ concat rs @ rest))) [0..<length rs]"
    by (simp add: upt_conv_Cons map_Suc_upt [symmetric] del: upt_Suc)
  also have "take c (r @ concat rs @ rest) = r"
    using len by simp
  also have "map (\<lambda>i. take c (drop (Suc i * c) (r @ concat rs @ rest))) [0..<length rs]
      = map (\<lambda>i. take c (drop (i * c) (concat rs @ rest))) [0..<length rs]"
    using len by (simp add: add.commute)
  finally show ?case
    using Cons.IH [OF tl] by simp
qed

lemma length_concat_rows:
  assumes "list_all (\<lambda>r. length r = c) rs"
  shows "length (concat rs) = length rs * c"
  using assms by (induction rs) simp_all

lemma GMatrix_toVector_length:
  "GMatrix_wf M \<Longrightarrow> length (GMatrix_toVector M) = GMatrix_rows M * GMatrix_cols M"
  by (simp add: GMatrix_wf_def GMatrix_toVector_def GMatrix_rows_def GMatrix_cols_def
      length_concat_rows)

lemma GMatrix_fromVector_toVector:
  assumes "GMatrix_wf M"
  shows "GMatrix_fromVector (GMatrix_toVector M @ rest) (GMatrix_rows M) M = Inr M"
proof -
  have "length (GMatrix_toVector M) = GMatrix_rows M * m_cols M"
    using GMatrix_toVector_length [OF assms] by (simp add: GMatrix_cols_def)
  moreover have "map (\<lambda>r. take (m_cols M) (drop (r * m_cols M) (concat (m_rows M) @ rest)))
      [0..<length (m_rows M)] = m_rows M"
    using assms by (intro blocks_of_concat) (simp add: GMatrix_wf_def)
  ultimately show ?thesis
    by (simp add: GMatrix_fromVector_def GMatrix_toVector_def GMatrix_rows_def)
qed

lemma size_t_round_trip:
  assumes "size_t_ok n"
  shows "GDomNode_asInt (GDomNode_newInt n) = Inr (if int n < 2 ^ 63 then int n else int n - 2 ^ 64)"
    and "nat ((if int n < 2 ^ 63 then int n else int n - 2 ^ 64) mod 2 ^ 64) = n"
proof -
  have lt: "int n < 2 ^ 64" using assms by (simp add: size_t_ok_def)
  then have m: "int n mod 2 ^ 64 = int n" by simp
  show "GDomNode_asInt (GDomNode_newInt n) = Inr (if int n < 2 ^ 63 then int n else int n - 2 ^ 64)"
    using m by (simp add: GDomNode_asInt_def GDomNode_newInt_def)
  have "(int n - 2 ^ 64) mod 2 ^ 64 = int n mod 2 ^ 64"
    using mod_diff_right_eq [of "int n" "2 ^ 64" "2 ^ 64"] by simp
  then show "nat ((if int n < 2 ^ 63 then int n else int n - 2 ^ 64) mod 2 ^ 64) = n"
    using m by simp
qed

lemma GDomNode_field_DomObj:
  "map_of fs name = Some v \<Longrightarrow> GDomNode_field (DomObj fs) name = Inr v"
  by (simp add: GDomNode_field_def)

lemma GDomNode_size_t_field:
  assumes "map_of fs name = Some (GDomNode_newInt n)" and "size_t_ok n"
  shows "GDomNode_size_t (DomObj fs) name = Inr n"
  using size_t_round_trip [OF assms(2)] GDomNode_field_DomObj [OF assms(1)]
  by (simp add: GDomNode_size_t_def)

lemma GDomNode_bool_field:
  assumes "map_of fs name = Some (DomBool b)"
  shows "GDomNode_bool (DomObj fs) name = Inr b"
  using GDomNode_field_DomObj [OF assms] by (simp add: GDomNode_bool_def GDomNode_asBool_def)

lemma type_field:
  assumes "map_of fs ''type'' = Some (GDomNode_newInt (LayerType_value t))"
  shows "bind_result (GDomNode_field (DomObj fs) ''type'') (\<lambda>f. bind_result (GDomNode_asInt f) g)
      = g (int (LayerType_value t))"
proof -
  have "LayerType_value t < 20" by (cases t) simp_all
  then have "GDomNode_asInt (GDomNode_newInt (LayerType_value t)) = Inr (int (LayerType_value t))"
    by (simp add: GDomNode_asInt_def GDomNode_newInt_def)
  then show ?thesis
    using GDomNode_field_DomObj [OF assms] by simp
qed

lemma GLayerLinear_vector_round_trip:
  assumes wf: "GLayerLinear_wf L"
  shows "GLayerLinear_vectorToWeights (fst (GLayerLinear_weightsToVector L)) L
      = Inr (L, snd (GLayerLinear_weightsToVector L))"
proof -
  have rows: "GLayerLinear_inputs L + 1 = GMatrix_rows (lin_weights L)"
    using wf by (simp add: GLayerLinear_wf_def GLayerLinear_inputs_def)
  have "GMatrix_fromVector (GMatrix_toVector (lin_weights L) @ []) (GMatrix_rows (lin_weights L))
      (lin_weights L) = Inr (lin_weights L)"
    using wf by (intro GMatrix_fromVector_toVector) (simp add: GLayerLinear_wf_def)
  then show ?thesis
    unfolding GLayerLinear_vectorToWeights_def GLayerLinear_weightsToVector_def rows
    by simp
qed

lemma GLayerLinear_document_round_trip:
  "GNeuralNetLayer_deserialize (GLayerLinear_serialize L)
     = Inr (Layer_Linear \<lparr>lin_weights = lin_weights L,
                          lin_activation = GMatrix_resize 2 (GLayerLinear_outputs L)\<rparr>)"
proof -
  define fs where "fs = [(''type'', GDomNode_newInt (LayerType_value layer_linear)),
      (''weights'', GMatrix_serialize (lin_weights L))]"
  have node: "GLayerLinear_serialize L = DomObj fs"
    by (simp add: GLayerLinear_serialize_def GDomNode_addField_def baseDomNode_def
        GDomNode_newObj_def fs_def)
  have t: "map_of fs ''type'' = Some (GDomNode_newInt (LayerType_value layer_linear))"
    by (simp add: fs_def)
  have w: "GDomNode_field (DomObj fs) ''weights'' = Inr (GMatrix_serialize (lin_weights L))"
    by (rule GDomNode_field_DomObj) (simp add: fs_def)
  have "GLayerLinear_deserialize (DomObj fs)
      = Inr \<lparr>lin_weights = lin_weights L,
             lin_activation = GMatrix_resize 2 (GLayerLinear_outputs L)\<rparr>"
    by (simp add: GLayerLinear_deserialize_def w GMatrix_serialize_def GMatrix_deserialize_def
        GLayerLinear_outputs_def)
  then show ?thesis
    unfolding node GNeuralNetLayer_deserialize_def type_field [OF t]
    by (simp add: map_result_def)
qed

lemma GLayerMaxOut_vector_round_trip:
  assumes wf: "GLayerMaxOut_wf L"
  shows "\<exists>v k. GLayerMaxOut_weightsToVector L = Inr (v, k)
      \<and> GLayerMaxOut_vectorToWeights v L = Inr (L, k)"
proof -
  define n where "n = GLayerMaxOut_inputs L"
  define b where "b = m_rows (mo_bias L) ! 0"
  have rows2: "length (m_rows (mo_bias L)) = 2"
    using wf by (simp add: GLayerMaxOut_wf_def GMatrix_rows_def)
  have bias: "GLayerMaxOut_bias L = Inr b"
    using rows2 by (simp add: GLayerMaxOut_bias_def GMatrix_row_def b_def)
  have blen: "length b = n"
    using wf rows2 by (simp add: GLayerMaxOut_wf_def GMatrix_wf_def list_all_length b_def n_def
        GLayerMaxOut_inputs_def GMatrix_cols_def)
  have w2v: "GLayerMaxOut_weightsToVector L
      = Inr (b @ GMatrix_toVector (mo_weights L), n * (GLayerMaxOut_outputs L + 1))"
    using blen by (simp add: GLayerMaxOut_weightsToVector_def bias n_def [symmetric])
  have restore: "GMatrix_fromVector (GMatrix_toVector (mo_weights L) @ []) n (mo_weights L)
      = Inr (mo_weights L)"
    unfolding n_def GLayerMaxOut_inputs_def
    using wf by (intro GMatrix_fromVector_toVector) (simp add: GLayerMaxOut_wf_def)
  have same: "GMatrix_set_row 0 b (mo_bias L) = mo_bias L"
    by (simp add: GMatrix_set_row_def b_def)
  have "GLayerMaxOut_vectorToWeights (b @ GMatrix_toVector (mo_weights L)) L
      = Inr (L, n * (GLayerMaxOut_outputs L + 1))"
    using blen restore
    by (simp add: GLayerMaxOut_vectorToWeights_def bias n_def [symmetric] same)
  then show ?thesis
    using w2v by simp
qed

lemma GLayerConvolutional1D_vector_round_trip:
  assumes wf: "GLayerConvolutional1D_wf L"
  shows "\<exists>v k. GLayerConvolutional1D_weightsToVector L = Inr (v, k)
      \<and> GLayerConvolutional1D_vectorToWeights v L = Inr (L, k)"
proof -
  define n where "n = GMatrix_rows (c1_kernels L)"
  have blen: "length (c1_bias L) = n"
    using wf by (simp add: GLayerConvolutional1D_wf_def n_def)
  have w2v: "GLayerConvolutional1D_weightsToVector L
      = Inr (c1_bias L @ GMatrix_toVector (c1_kernels L), (n + 1) * GMatrix_cols (c1_kernels L))"
    using blen by (simp add: GLayerConvolutional1D_weightsToVector_def n_def [symmetric])
  have restore: "GMatrix_fromVector (GMatrix_toVector (c1_kernels L) @ []) n (c1_kernels L)
      = Inr (c1_kernels L)"
    unfolding n_def
    using wf by (intro GMatrix_fromVector_toVector) (simp add: GLayerConvolutional1D_wf_def)
  have "GLayerConvolutional1D_vectorToWeights (c1_bias L @ GMatrix_toVector (c1_kernels L)) L
      = Inr (L, (n + 1) * GMatrix_cols (c1_kernels L))"
    using blen restore
    by (simp add: GLayerConvolutional1D_vectorToWeights_def n_def [symmetric])
  then show ?thesis
    using w2v by simp
qed

lemma GLayerConvolutional1D_document_round_trip:
  assumes wf: "GLayerConvolutional1D_wf L"
  shows "GNeuralNetLayer_deserialize (GLayerConvolutional1D_serialize L)
      = Inr (Layer_Convolutional1D L)"
proof -
  define fs where "fs = [(''type'', GDomNode_newInt (LayerType_value layer_convolutional1d)),
      (''isam'', GDomNode_newInt (c1_inputSamples L)),
      (''ichan'', GDomNode_newInt (c1_inputChannels L)),
      (''osam'', GDomNode_newInt (c1_outputSamples L)),
      (''kpc'', GDomNode_newInt (c1_kernelsPerChannel L)),
      (''kern'', GMatrix_serialize (c1_kernels L)),
      (''act'', GMatrix_serialize (c1_activation L)),
      (''bias'', GVec_serialize (c1_bias L))]"
  have node: "GLayerConvolutional1D_serialize L = DomObj fs"
    by (simp add: GLayerConvolutional1D_serialize_def GDomNode_addField_def baseDomNode_def
        GDomNode_newObj_def fs_def)
  have t: "map_of fs ''type'' = Some (GDomNode_newInt (LayerType_value layer_convolutional1d))"
    by (simp add: fs_def)
  have isam: "GDomNode_size_t (DomObj fs) ''isam'' = Inr (c1_inputSamples L)"
    using wf by (intro GDomNode_size_t_field) (simp_all add: fs_def GLayerConvolutional1D_wf_def)
  have ichan: "GDomNode_size_t (DomObj fs) ''ichan'' = Inr (c1_inputChannels L)"
    using wf by (intro GDomNode_size_t_field) (simp_all add: fs_def GLayerConvolutional1D_wf_def)
  have osam: "GDomNode_size_t (DomObj fs) ''osam'' = Inr (c1_outputSamples L)"
    using wf by (intro GDomNode_size_t_field) (simp_all add: fs_def GLayerConvolutional1D_wf_def)
  have kpc: "GDomNode_size_t (DomObj fs) ''kpc'' = Inr (c1_kernelsPerChannel L)"
    using wf by (intro GDomNode_size_t_field) (simp_all add: fs_def GLayerConvolutional1D_wf_def)
  have kern: "GDomNode_field (DomObj fs) ''kern'' = Inr (GMatrix_serialize (c1_kernels L))"
    by (rule GDomNode_field_DomObj) (simp add: fs_def)
  have act: "GDomNode_field (DomObj fs) ''act'' = Inr (GMatrix_serialize (c1_activation L))"
    by (rule GDomNode_field_DomObj) (simp add: fs_def)
  have bias: "GDomNode_field (DomObj fs) ''bias'' = Inr (GVec_serialize (c1_bias L))"
    by (rule GDomNode_field_DomObj) (simp add: fs_def)
  have "GLayerConvolutional1D_deserialize (DomObj fs) = Inr L"
    by (simp add: GLayerConvolutional1D_deserialize_def isam ichan osam kpc kern act bias
        GMatrix_serialize_def GMatrix_deserialize_def GVec_serialize_def GVec_deserialize_def)
  then show ?thesis
    unfolding node GNeuralNetLayer_deserialize_def type_field [OF t]
    by (simp add: map_result_def)
qed

lemma GLayerRestrictedBoltzmannMachine_document_round_trip:
  assumes wf: "GLayerRestrictedBoltzmannMachine_wf L"
  shows "\<exists>node L' b br. GNeuralNetLayer_serialize (Layer_RestrictedBoltzmannMachine L) = Inr node
      \<and> GNeuralNetLayer_deserialize node = Inr (Layer_RestrictedBoltzmannMachine L')
      \<and> rbm_weights L' = rbm_weights L
      \<and> GLayerRestrictedBoltzmannMachine_bias L = Inr b
      \<and> GLayerRestrictedBoltzmannMachine_bias L' = Inr b
      \<and> GLayerRestrictedBoltzmannMachine_biasReverse L = Inr br
      \<and> GLayerRestrictedBoltzmannMachine_biasReverse L' = Inr br
      \<and> GLayerRestrictedBoltzmannMachine_inputs L' = GLayerRestrictedBoltzmannMachine_inputs L
      \<and> GLayerRestrictedBoltzmannMachine_outputs L' = GLayerRestrictedBoltzmannMachine_outputs L"
proof -
  define b where "b = m_rows (rbm_bias L) ! 0"
  define br where "br = m_rows (rbm_biasReverse L) ! 0"
  define fs where "fs = [(''type'', GDomNode_newInt (LayerType_value layer_restrictedboltzmannmachine)),
      (''weights'', GMatrix_serialize (rbm_weights L)),
      (''bias'', GVec_serialize b),
      (''biasRev'', GVec_serialize br)]"
  define L' where "L' = \<lparr>rbm_weights = rbm_weights L,
      rbm_bias = GMatrix_set_row 0 b (GMatrix_resize 3 (GMatrix_rows (rbm_weights L))),
      rbm_biasReverse = GMatrix_set_row 0 br (GMatrix_resize 3 (GMatrix_cols (rbm_weights L)))\<rparr>"
  have bias: "GLayerRestrictedBoltzmannMachine_bias L = Inr b"
    using wf by (simp add: GLayerRestrictedBoltzmannMachine_wf_def GMatrix_rows_def
        GLayerRestrictedBoltzmannMachine_bias_def GMatrix_row_def b_def)
  have biasRev: "GLayerRestrictedBoltzmannMachine_biasReverse L = Inr br"
    using wf by (simp add: GLayerRestrictedBoltzmannMachine_wf_def GMatrix_rows_def
        GLayerRestrictedBoltzmannMachine_biasReverse_def GMatrix_row_def br_def)
  have node: "GNeuralNetLayer_serialize (Layer_RestrictedBoltzmannMachine L) = Inr (DomObj fs)"
    by (simp add: GLayerRestrictedBoltzmannMachine_serialize_def bias biasRev
        GDomNode_addField_def baseDomNode_def GDomNode_newObj_def fs_def)
  have t: "map_of fs ''type''
      = Some (GDomNode_newInt (LayerType_value layer_restrictedboltzmannmachine))"
    by (simp add: fs_def)
  have w: "GDomNode_field (DomObj fs) ''weights'' = Inr (GMatrix_serialize (rbm_weights L))"
    by (rule GDomNode_field_DomObj) (simp add: fs_def)
  have fb: "GDomNode_field (DomObj fs) ''bias'' = Inr (GVec_serialize b)"
    by (rule GDomNode_field_DomObj) (simp add: fs_def)
  have fbr: "GDomNode_field (DomObj fs) ''biasRev'' = Inr (GVec_serialize br)"
    by (rule GDomNode_field_DomObj) (simp add: fs_def)
  have "GLayerRestrictedBoltzmannMachine_deserialize (DomObj fs) = Inr L'"
    by (simp add: GLayerRestrictedBoltzmannMachine_deserialize_def w fb fbr L'_def
        GMatrix_serialize_def GMatrix_deserialize_def GVec_serialize_def GVec_deserialize_def)
  then have des: "GNeuralNetLayer_deserialize (DomObj fs) = Inr (Layer_RestrictedBoltzmannMachine L')"
    unfolding GNeuralNetLayer_deserialize_def type_field [OF t]
    by (simp add: map_result_def)
  have "GLayerRestrictedBoltzmannMachine_bias L' = Inr b"
    by (simp add: L'_def GLayerRestrictedBoltzmannMachine_bias_def GMatrix_row_def
        GMatrix_set_row_def GMatrix_resize_def)
  moreover have "GLayerRestrictedBoltzmannMachine_biasReverse L' = Inr br"
    by (simp add: L'_def GLayerRestrictedBoltzmannMachine_biasReverse_def GMatrix_row_def
        GMatrix_set_row_def GMatrix_resize_def)
  moreover have "rbm_weights L' = rbm_weights L"
    by (simp add: L'_def)
  ultimately show ?thesis
    using node des bias biasRev
    by (simp add: GLayerRestrictedBoltzmannMachine_inputs_def
        GLayerRestrictedBoltzmannMachine_outputs_def)
qed

lemma GLayerConvolutional2D_vector_round_trip:
  assumes wf: "GLayerConvolutional2D_wf L"
  shows "\<exists>v k. GLayerConvolutional2D_weightsToVector L = Inr (v, k)
      \<and> GLayerConvolutional2D_vectorToWeights v L = Inr (L, k)"
proof -
  define K where "K = c2_kernels L"
  define n where "n = GMatrix_rows K"
  have Kwf: "GMatrix_wf K" and blen: "length (c2_bias L) = n"
    using wf by (simp_all add: GLayerConvolutional2D_wf_def K_def n_def)
  have klen: "length (GMatrix_toVector K) = n * GMatrix_cols K"
    using GMatrix_toVector_length [OF Kwf] by (simp add: n_def)
  have w2v: "GLayerConvolutional2D_weightsToVector L
      = Inr (GMatrix_toVector K @ c2_bias L, GLayerConvolutional2D_countWeights L)"
    using blen by (simp add: GLayerConvolutional2D_weightsToVector_def K_def [symmetric]
        n_def [symmetric])
  have restore: "GMatrix_fromVector (GMatrix_toVector K @ c2_bias L) n K = Inr K"
    unfolding n_def by (rule GMatrix_fromVector_toVector [OF Kwf])
  have put: "GVec_put 0 (c2_bias L) (c2_bias L) = Inr (c2_bias L)"
    by (simp add: GVec_put_def)
  have same: "L\<lparr>c2_kernels := K\<rparr> = L"
    by (simp add: K_def)
  have "GLayerConvolutional2D_vectorToWeights (GMatrix_toVector K @ c2_bias L) L
      = Inr (L, GLayerConvolutional2D_countWeights L)"
    using blen klen restore put
    by (simp add: GLayerConvolutional2D_vectorToWeights_def K_def [symmetric] n_def [symmetric]
        same)
  then show ?thesis
    using w2v by simp
qed

lemma GLayerConvolutional2D_document_round_trip:
  assumes wf: "GLayerConvolutional2D_wf L"
  shows "GNeuralNetLayer_deserialize (GLayerConvolutional2D_serialize L)
      = Inr (Layer_Convolutional2D (L\<lparr>c2_activation :=
          GMatrix_resize 2 (c2_outputWidth L * c2_outputHeight L * GMatrix_rows (c2_kernels L))\<rparr>))"
proof -
  define fs where "fs = [(''type'', GDomNode_newInt (LayerType_value layer_convolutional2d)),
      (''width'', GDomNode_newInt (c2_width L)),
      (''height'', GDomNode_newInt (c2_height L)),
      (''channels'', GDomNode_newInt (c2_channels L)),
      (''kWidth'', GDomNode_newInt (c2_kWidth L)),
      (''kHeight'', GDomNode_newInt (c2_kHeight L)),
      (''strideX'', GDomNode_newInt (c2_strideX L)),
      (''strideY'', GDomNode_newInt (c2_strideY L)),
      (''paddingX'', GDomNode_newInt (c2_paddingX L)),
      (''paddingY'', GDomNode_newInt (c2_paddingY L)),
      (''outputWidth'', GDomNode_newInt (c2_outputWidth L)),
      (''outputHeight'', GDomNode_newInt (c2_outputHeight L)),
      (''inputInterlaced'', DomBool (c2_inputInterlaced L)),
      (''kernelsInterlaced'', DomBool (c2_kernelsInterlaced L)),
      (''outputInterlaced'', DomBool (c2_outputInterlaced L)),
      (''bias'', GVec_serialize (c2_bias L)),
      (''kernels'', GMatrix_serialize (c2_kernels L))]"
  have node: "GLayerConvolutional2D_serialize L = DomObj fs"
    by (simp add: GLayerConvolutional2D_serialize_def GDomNode_addField_def baseDomNode_def
        GDomNode_newObj_def fs_def)
  have t: "map_of fs ''type'' = Some (GDomNode_newInt (LayerType_value layer_convolutional2d))"
    by (simp add: fs_def)
  have sizes:
    "GDomNode_size_t (DomObj fs) ''width'' = Inr (c2_width L)"
    "GDomNode_size_t (DomObj fs) ''height'' = Inr (c2_height L)"
    "GDomNode_size_t (DomObj fs) ''channels'' = Inr (c2_channels L)"
    "GDomNode_size_t (DomObj fs) ''kWidth'' = Inr (c2_kWidth L)"
    "GDomNode_size_t (DomObj fs) ''kHeight'' = Inr (c2_kHeight L)"
    "GDomNode_size_t (DomObj fs) ''outputWidth'' = Inr (c2_outputWidth L)"
    "GDomNode_size_t (DomObj fs) ''outputHeight'' = Inr (c2_outputHeight L)"
    "GDomNode_size_t (DomObj fs) ''strideX'' = Inr (c2_strideX L)"
    "GDomNode_size_t (DomObj fs) ''strideY'' = Inr (c2_strideY L)"
    "GDomNode_size_t (DomObj fs) ''paddingX'' = Inr (c2_paddingX L)"
    "GDomNode_size_t (DomObj fs) ''paddingY'' = Inr (c2_paddingY L)"
    using wf by (simp_all add: GDomNode_size_t_field fs_def GLayerConvolutional2D_wf_def)
  have flags:
    "GDomNode_bool (DomObj fs) ''inputInterlaced'' = Inr (c2_inputInterlaced L)"
    "GDomNode_bool (DomObj fs) ''kernelsInterlaced'' = Inr (c2_kernelsInterlaced L)"
    "GDomNode_bool (DomObj fs) ''outputInterlaced'' = Inr (c2_outputInterlaced L)"
    by (simp_all add: GDomNode_bool_field fs_def)
  have bias: "GDomNode_field (DomObj fs) ''bias'' = Inr (GVec_serialize (c2_bias L))"
    by (rule GDomNode_field_DomObj) (simp add: fs_def)
  have kernels: "GDomNode_field (DomObj fs) ''kernels'' = Inr (GMatrix_serialize (c2_kernels L))"
    by (rule GDomNode_field_DomObj) (simp add: fs_def)
  have "GLayerConvolutional2D_deserialize (DomObj fs)
      = Inr (L\<lparr>c2_activation :=
          GMatrix_resize 2 (c2_outputWidth L * c2_outputHeight L * GMatrix_rows (c2_kernels L))\<rparr>)"
    by (simp add: GLayerConvolutional2D_deserialize_def sizes flags bias kernels
        GMatrix_serialize_def GMatrix_deserialize_def GVec_serialize_def GVec_deserialize_def)
  then show ?thesis
    unfolding node GNeuralNetLayer_deserialize_def type_field [OF t]
    by (simp add: map_result_def)
qed

subsection \<open>Further facts\<close>

text \<open>
  The constructor of the fully connected layer gives a well-formed layer of the requested
  shape, but for the one request that equals the shape \<^verbatim>\<open>inputs()\<close> and \<^verbatim>\<open>outputs()\<close> report for
  the still empty matrices.
\<close>

lemma GLayerLinear_new_wf:
  assumes "\<not> (inp = 2 ^ 64 - 1 \<and> out = 0)"
  shows "GLayerLinear_wf (GLayerLinear_new inp out)"
    and "GLayerLinear_inputs (GLayerLinear_new inp out) = inp"
    and "GLayerLinear_outputs (GLayerLinear_new inp out) = out"
  using assms
  by (auto simp add: GLayerLinear_new_def GLayerLinear_resize_def GLayerLinear_inputs_def
      GLayerLinear_outputs_def GLayerLinear_wf_def GMatrix_wf_def GMatrix_default_def
      GMatrix_resize_def GMatrix_rows_def GMatrix_cols_def list_all_iff)

text \<open>
  The restricted Boltzmann machine with 2 inputs and 1 output writes 3 doubles, and reading
  them back asks \<^verbatim>\<open>fromVector\<close> for \<^verbatim>\<open>inputs()\<close> = 2 rows of 2 doubles, past the end of what was
  written.
\<close>

lemma GLayerRestrictedBoltzmannMachine_vector_round_trip_fails:
  "GLayerRestrictedBoltzmannMachine_weightsToVector GLayerRestrictedBoltzmannMachine_example
     = Inr ([3, 1, 2], 3)
   \<and> GLayerRestrictedBoltzmannMachine_vectorToWeights [3, 1, 2]
       GLayerRestrictedBoltzmannMachine_example = Inl OutOfRange"
  by (simp add: GLayerRestrictedBoltzmannMachine_weightsToVector_def
      GLayerRestrictedBoltzmannMachine_vectorToWeights_def
      GLayerRestrictedBoltzmannMachine_example_def GLayerRestrictedBoltzmannMachine_bias_def
      GLayerRestrictedBoltzmannMachine_inputs_def GLayerRestrictedBoltzmannMachine_outputs_def
      GMatrix_row_def GMatrix_rows_def GMatrix_cols_def GMatrix_toVector_def
      GMatrix_fromVector_def)

text \<open>
  For every one-dimensional convolutional layer that the constructor returns, the count
  reported is \<open>(kernelCount + 1) * kernelSize\<close>, the doubles written are
  \<open>kernelCount * kernelSize + kernelCount\<close>, and the layer is well-formed when its sizes fit
  a \<^verbatim>\<open>size_t\<close>.
\<close>

lemma GLayerConvolutional1D_new_counts:
  assumes "GLayerConvolutional1D_new inputSamples inputChannels kernelSize kernelsPerChannel = Inr L"
  shows "GLayerConvolutional1D_countWeights L
      = (inputChannels * kernelsPerChannel + 1) * kernelSize"
    and "\<exists>w. GLayerConvolutional1D_weightsToVector L
          = Inr (w, (inputChannels * kernelsPerChannel + 1) * kernelSize)
        \<and> length w = inputChannels * kernelsPerChannel * kernelSize
                      + inputChannels * kernelsPerChannel"
    and "GLayerConvolutional1D_wf L = (size_t_ok inputSamples \<and> size_t_ok inputChannels
        \<and> size_t_ok (inputSamples - kernelSize + 1) \<and> size_t_ok kernelsPerChannel)"
  using assms
  by (auto simp add: GLayerConvolutional1D_new_def GLayerConvolutional1D_countWeights_def
      GLayerConvolutional1D_weightsToVector_def GLayerConvolutional1D_wf_def
      GMatrix_toVector_def GMatrix_resize_def GMatrix_wf_def
      GMatrix_rows_def GMatrix_cols_def length_concat sum_list_replicate list_all_iff
      split: if_splits)

subsection \<open>Claims\<close>

text \<open>
  C5. For every \<open>n\<close>, constructing a product pooling or an addition pooling layer with
  input size \<open>2 * n\<close> succeeds and the layer reports \<open>outputs() = n\<close>; constructing either
  with the odd input size \<open>2 * n + 1\<close> throws; and the constructor throws exactly when the
  input size is odd.
\<close>

theorem pooling_shape_law:
  "(\<exists>L. GLayerProductPooling_new (2 * n) = Inr L \<and> GLayerProductPooling_outputs L = n
        \<and> GLayerProductPooling_inputs L = 2 * n)
   \<and> (\<exists>L. GLayerAdditionPooling_new (2 * n) = Inr L \<and> GLayerAdditionPooling_outputs L = n
        \<and> GLayerAdditionPooling_inputs L = 2 * n)
   \<and> GLayerProductPooling_new (2 * n + 1) = Inl (Ex_thrown ''inputCount must be divisible by 2'')
   \<and> GLayerAdditionPooling_new (2 * n + 1) = Inl (Ex_thrown ''inputCount must be divisible by 2'')
   \<and> (isl (GLayerProductPooling_new inps) = odd inps)
   \<and> (isl (GLayerAdditionPooling_new inps) = odd inps)"
  by (auto simp add: GLayerProductPooling_new_def GLayerProductPooling_resize_def
      GLayerProductPooling_outputs_def GLayerProductPooling_inputs_def
      GLayerAdditionPooling_new_def GLayerAdditionPooling_resize_def
      GLayerAdditionPooling_outputs_def GLayerAdditionPooling_inputs_def
      GMatrix_default_def GMatrix_resize_def GMatrix_cols_def and_one_nat_odd)

text \<open>
  C1. For a well-formed \<^verbatim>\<open>GLayerLinear\<close> with weight rows \<open>W\<close> (inputs-by-outputs) and
  bias \<open>b\<close> (the last row of \<^verbatim>\<open>m_weights\<close>): for every input vector of length
  \<^verbatim>\<open>inputs()\<close>, \<^verbatim>\<open>feedForward\<close> returns and sets \<open>activation[j] = b[j] + (\<Sum>i. input[i] * W[i][j])\<close>;
  \<^verbatim>\<open>backPropError\<close> sets \<open>upstreamError[i]\<close> to the dot product of this layer's error with
  row \<open>i\<close> of the weights for every upstream index \<open>i\<close>; and \<^verbatim>\<open>updateDeltas\<close> adds
  \<open>upstreamActivation[i] * error[j]\<close> to the delta slot \<open>i * outputs + j\<close> of weight \<open>(i, j)\<close>
  and \<open>error[j]\<close> to the delta slot \<open>inputs * outputs + j\<close> of bias \<open>j\<close>, on top of what the
  slots held.
\<close>

theorem GLayerLinear_forward_backward_deltas:
  assumes wf: "GLayerLinear_wf L"
  shows "(\<forall>inp. length inp = GLayerLinear_inputs L \<longrightarrow>
      (\<exists>L' a b. GLayerLinear_feedForward inp L = Inr L'
        \<and> GLayerLinear_activation L' = Inr a \<and> GLayerLinear_bias L = Inr b
        \<and> length a = GLayerLinear_outputs L
        \<and> (\<forall>j<GLayerLinear_outputs L.
              a ! j = b ! j + (\<Sum>i<GLayerLinear_inputs L. inp ! i * m_rows (lin_weights L) ! i ! j))))
    \<and> (\<forall>inputCount upStreamError.
          inputCount \<le> GLayerLinear_inputs L \<and> length upStreamError = inputCount \<longrightarrow>
      (\<exists>ue err. GLayerLinear_backPropError L inputCount upStreamError = Inr ue
        \<and> GLayerLinear_error L = Inr err \<and> length ue = inputCount
        \<and> (\<forall>i<inputCount.
              ue ! i = (\<Sum>j<GLayerLinear_outputs L. err ! j * m_rows (lin_weights L) ! i ! j))))
    \<and> (\<forall>up deltas.
          length up = GLayerLinear_inputs L \<and> length deltas = GLayerLinear_countWeights L \<longrightarrow>
      (\<exists>d err. GLayerLinear_updateDeltas L up deltas = Inr d
        \<and> GLayerLinear_error L = Inr err \<and> length d = length deltas
        \<and> (\<forall>i<GLayerLinear_inputs L. \<forall>j<GLayerLinear_outputs L.
              d ! (i * GLayerLinear_outputs L + j)
                = deltas ! (i * GLayerLinear_outputs L + j) + up ! i * err ! j)
        \<and> (\<forall>j<GLayerLinear_outputs L.
              d ! (GLayerLinear_inputs L * GLayerLinear_outputs L + j)
                = deltas ! (GLayerLinear_inputs L * GLayerLinear_outputs L + j) + err ! j)))"
proof (intro conjI allI impI)
  fix inp :: GVec assume "length inp = GLayerLinear_inputs L"
  from GLayerLinear_feedForward_correct [OF wf this]
  show "\<exists>L' a b. GLayerLinear_feedForward inp L = Inr L'
        \<and> GLayerLinear_activation L' = Inr a \<and> GLayerLinear_bias L = Inr b
        \<and> length a = GLayerLinear_outputs L
        \<and> (\<forall>j<GLayerLinear_outputs L.
              a ! j = b ! j + (\<Sum>i<GLayerLinear_inputs L. inp ! i * m_rows (lin_weights L) ! i ! j))"
    by blast
next
  fix inputCount and upStreamError :: GVec
  assume "inputCount \<le> GLayerLinear_inputs L \<and> length upStreamError = inputCount"
  then show "\<exists>ue err. GLayerLinear_backPropError L inputCount upStreamError = Inr ue
        \<and> GLayerLinear_error L = Inr err \<and> length ue = inputCount
        \<and> (\<forall>i<inputCount.
              ue ! i = (\<Sum>j<GLayerLinear_outputs L. err ! j * m_rows (lin_weights L) ! i ! j))"
    using GLayerLinear_backPropError_correct [OF wf, of inputCount upStreamError] by simp
next
  fix up deltas :: GVec
  assume "length up = GLayerLinear_inputs L \<and> length deltas = GLayerLinear_countWeights L"
  then show "\<exists>d err. GLayerLinear_updateDeltas L up deltas = Inr d
        \<and> GLayerLinear_error L = Inr err \<and> length d = length deltas
        \<and> (\<forall>i<GLayerLinear_inputs L. \<forall>j<GLayerLinear_outputs L.
              d ! (i * GLayerLinear_outputs L + j)
                = deltas ! (i * GLayerLinear_outputs L + j) + up ! i * err ! j)
        \<and> (\<forall>j<GLayerLinear_outputs L.
              d ! (GLayerLinear_inputs L * GLayerLinear_outputs L + j)
                = deltas ! (GLayerLinear_inputs L * GLayerLinear_outputs L + j) + err ! j)"
    using GLayerLinear_updateDeltas_correct [OF wf, of up deltas] by simp
qed

theorem GLayerLinear_forward_backward_deltas_witness:
  "GLayerLinear_wf GLayerLinear_example
   \<and> length [1, 2 :: real] = GLayerLinear_inputs GLayerLinear_example
   \<and> (\<exists>L' a b. GLayerLinear_feedForward [1, 2] GLayerLinear_example = Inr L'
        \<and> GLayerLinear_activation L' = Inr a \<and> GLayerLinear_bias GLayerLinear_example = Inr b
        \<and> length a = GLayerLinear_outputs GLayerLinear_example
        \<and> (\<forall>j<GLayerLinear_outputs GLayerLinear_example.
              a ! j = b ! j + (\<Sum>i<GLayerLinear_inputs GLayerLinear_example. [1, 2] ! i * m_rows (lin_weights GLayerLinear_example) ! i ! j)))
   \<and> 2 \<le> GLayerLinear_inputs GLayerLinear_example
   \<and> length [7, 7 :: real] = 2
   \<and> (\<exists>ue err. GLayerLinear_backPropError GLayerLinear_example 2 [7, 7] = Inr ue
        \<and> GLayerLinear_error GLayerLinear_example = Inr err \<and> length ue = 2
        \<and> (\<forall>i<2. ue ! i = (\<Sum>j<GLayerLinear_outputs GLayerLinear_example. err ! j * m_rows (lin_weights GLayerLinear_example) ! i ! j)))
   \<and> length [2, 3 :: real] = GLayerLinear_inputs GLayerLinear_example
   \<and> length [100, 200, 300, 400, 500, 600 :: real] = GLayerLinear_countWeights GLayerLinear_example
   \<and> (\<exists>d err. GLayerLinear_updateDeltas GLayerLinear_example [2, 3] [100, 200, 300, 400, 500, 600] = Inr d
        \<and> GLayerLinear_error GLayerLinear_example = Inr err
        \<and> length d = length [100, 200, 300, 400, 500, 600 :: real]
        \<and> (\<forall>i<GLayerLinear_inputs GLayerLinear_example. \<forall>j<GLayerLinear_outputs GLayerLinear_example.
              d ! (i * GLayerLinear_outputs GLayerLinear_example + j)
                = [100, 200, 300, 400, 500, 600] ! (i * GLayerLinear_outputs GLayerLinear_example + j) + [2, 3] ! i * err ! j)
        \<and> (\<forall>j<GLayerLinear_outputs GLayerLinear_example.
              d ! (GLayerLinear_inputs GLayerLinear_example * GLayerLinear_outputs GLayerLinear_example + j)
                = [100, 200, 300, 400, 500, 600] ! (GLayerLinear_inputs GLayerLinear_example * GLayerLinear_outputs GLayerLinear_example + j) + err ! j))"
proof -
  have wf: "GLayerLinear_wf GLayerLinear_example"
    by (simp add: GLayerLinear_example_def GLayerLinear_wf_def GMatrix_wf_def GMatrix_rows_def
        GMatrix_cols_def)
  have ins: "GLayerLinear_inputs GLayerLinear_example = 2"
    by (simp add: GLayerLinear_example_def GLayerLinear_inputs_def GMatrix_rows_def)
  have outs: "GLayerLinear_outputs GLayerLinear_example = 2"
    by (simp add: GLayerLinear_example_def GLayerLinear_outputs_def GMatrix_cols_def)
  have cw: "GLayerLinear_countWeights GLayerLinear_example = 6"
    by (simp add: GLayerLinear_countWeights_def ins outs)
  note T = GLayerLinear_forward_backward_deltas [OF wf]
  have ff: "length [1, 2 :: real] = GLayerLinear_inputs GLayerLinear_example"
    by (simp add: ins)
  have bp: "2 \<le> GLayerLinear_inputs GLayerLinear_example \<and> length [7, 7 :: real] = 2"
    by (simp add: ins)
  have ud: "length [2, 3 :: real] = GLayerLinear_inputs GLayerLinear_example
      \<and> length [100, 200, 300, 400, 500, 600 :: real] = GLayerLinear_countWeights GLayerLinear_example"
    by (simp add: ins cw)
  show ?thesis
    by (intro conjI wf ff conjunct1 [OF bp] conjunct2 [OF bp] conjunct1 [OF ud] conjunct2 [OF ud]
        T [THEN conjunct1, rule_format, OF ff]
        T [THEN conjunct2, THEN conjunct1, rule_format, OF bp]
        T [THEN conjunct2, THEN conjunct2, rule_format, OF ud])
qed

text \<open>
  C9 (as amended). \<^verbatim>\<open>GLayerLogistic::eval\<close> returns exactly 1 for every \<open>x \<ge> 700\<close> and
  exactly 0 for every \<open>x < -700\<close>; for \<open>-700 \<le> x < 700\<close> it returns \<open>1 / (1 + exp (-x))\<close>, and
  the denominator stays below the largest finite double, so nothing overflows. The lower
  threshold is strict in the source: \<open>x = -700\<close> is not saturated.
\<close>

theorem GLayerLogistic_eval_saturates:
  "(700 \<le> x \<longrightarrow> GLayerLogistic_eval x = 1)
   \<and> (x < - 700 \<longrightarrow> GLayerLogistic_eval x = 0)
   \<and> (- 700 \<le> x \<and> x < 700 \<longrightarrow>
        GLayerLogistic_eval x = 1 / (1 + exp (- x)) \<and> 1 + exp (- x) < DBL_MAX)"
proof (intro conjI impI)
  assume "700 \<le> x" then show "GLayerLogistic_eval x = 1"
    by (simp add: GLayerLogistic_eval_def)
next
  assume "x < - 700" then show "GLayerLogistic_eval x = 0"
    by (simp add: GLayerLogistic_eval_def)
next
  assume "- 700 \<le> x \<and> x < 700" then show "GLayerLogistic_eval x = 1 / (1 + exp (- x))"
    by (simp add: GLayerLogistic_eval_def add.commute)
next
  assume "- 700 \<le> x \<and> x < 700"
  then have "exp (- x) \<le> exp 700" by simp
  with exp_700_bound show "1 + exp (- x) < DBL_MAX" by linarith
qed

theorem GLayerLogistic_eval_saturates_witness:
  "GLayerLogistic_eval 700 = 1 \<and> GLayerLogistic_eval (- 701) = 0
   \<and> GLayerLogistic_eval 0 = 1 / 2 \<and> GLayerLogistic_eval (- 700) = 1 / (1 + exp 700)
   \<and> 1 + exp 700 < DBL_MAX"
  using GLayerLogistic_eval_saturates [of 700] GLayerLogistic_eval_saturates [of "- 701"]
    GLayerLogistic_eval_saturates [of 0] GLayerLogistic_eval_saturates [of "- 700"]
  by simp

text \<open>
  C9 as stated fails at \<open>x = -700\<close>: there \<open>|x| \<ge> 700\<close> and \<open>x\<close> is negative, yet the result
  is \<open>1 / (exp 700 + 1)\<close>, which is not 0.
\<close>

theorem GLayerLogistic_eval_minus_700_counterexample:
  "700 \<le> \<bar>- 700 :: real\<bar> \<and> (- 700 :: real) < 0 \<and> GLayerLogistic_eval (- 700) \<noteq> 0"
proof -
  have "0 < exp (700::real) + 1" by (simp add: add_pos_pos)
  then show ?thesis by (simp add: GLayerLogistic_eval_def)
qed

text \<open>
  C8. A \<^verbatim>\<open>GLayerConvolutional1D\<close> constructed with \<open>inputSamples = 10\<close>, \<open>inputChannels = 1\<close>,
  \<open>kernelSize = 3\<close>, \<open>kernelsPerChannel = 1\<close> reports \<open>outputs() = 8\<close>; and whatever bias \<open>b\<close>
  and kernel \<open>[w0, w1, w2]\<close> the layer is given (here through \<^verbatim>\<open>vectorToWeights\<close>), for every
  input vector of 10 values \<^verbatim>\<open>feedForward\<close> returns and leaves in \<open>activation()[0]\<close> the dot
  product of the kernel with the first 3 input values plus the bias.
\<close>

theorem GLayerConvolutional1D_first_activation:
  "\<exists>L0. GLayerConvolutional1D_new 10 1 3 1 = Inr L0
      \<and> GLayerConvolutional1D_outputs L0 = 8
      \<and> (\<forall>b w0 w1 w2 inp. length inp = 10 \<longrightarrow>
            (\<exists>L k L' a. GLayerConvolutional1D_vectorToWeights [b, w0, w1, w2] L0 = Inr (L, k)
               \<and> GMatrix_row (c1_kernels L) 0 = Inr [w0, w1, w2] \<and> c1_bias L = [b]
               \<and> GLayerConvolutional1D_outputs L = 8
               \<and> GLayerConvolutional1D_feedForward inp L = Inr L'
               \<and> GLayerConvolutional1D_activation L' = Inr a
               \<and> length a = 8
               \<and> a ! 0 = (w0 * inp ! 0 + w1 * inp ! 1 + w2 * inp ! 2) + b))"
  by (simp add: conv1d_defs upt_8 upt_3 numeral_2_eq_2)

theorem GLayerConvolutional1D_first_activation_witness:
  "length [1, 2, 3, 4, 5, 6, 7, 8, 9, 10 :: real] = 10
   \<and> (\<exists>L0 L k L' a. GLayerConvolutional1D_new 10 1 3 1 = Inr L0
        \<and> GLayerConvolutional1D_vectorToWeights [100, 1, 2, 3] L0 = Inr (L, k)
        \<and> GLayerConvolutional1D_feedForward [1, 2, 3, 4, 5, 6, 7, 8, 9, 10] L = Inr L'
        \<and> GLayerConvolutional1D_activation L' = Inr a
        \<and> a ! 0 = 114)"
proof -
  have len: "length [1, 2, 3, 4, 5, 6, 7, 8, 9, 10 :: real] = 10"
    by simp
  obtain L0 where new: "GLayerConvolutional1D_new 10 1 3 1 = Inr L0"
    and run: "\<forall>b w0 w1 w2 inp. length inp = 10 \<longrightarrow>
            (\<exists>L k L' a. GLayerConvolutional1D_vectorToWeights [b, w0, w1, w2] L0 = Inr (L, k)
               \<and> GMatrix_row (c1_kernels L) 0 = Inr [w0, w1, w2] \<and> c1_bias L = [b]
               \<and> GLayerConvolutional1D_outputs L = 8
               \<and> GLayerConvolutional1D_feedForward inp L = Inr L'
               \<and> GLayerConvolutional1D_activation L' = Inr a
               \<and> length a = 8
               \<and> a ! 0 = (w0 * inp ! 0 + w1 * inp ! 1 + w2 * inp ! 2) + b)"
    using GLayerConvolutional1D_first_activation by (elim exE conjE)
  obtain L k L' a where
    "GLayerConvolutional1D_vectorToWeights [100, 1, 2, 3] L0 = Inr (L, k)"
    "GLayerConvolutional1D_feedForward [1, 2, 3, 4, 5, 6, 7, 8, 9, 10] L = Inr L'"
    "GLayerConvolutional1D_activation L' = Inr a"
    "a ! 0 = (1 * [1, 2, 3, 4, 5, 6, 7, 8, 9, 10] ! 0 + 2 * [1, 2, 3, 4, 5, 6, 7, 8, 9, 10] ! 1
       + 3 * [1, 2, 3, 4, 5, 6, 7, 8, 9, 10] ! 2) + 100"
    using run [rule_format, OF len, of 100 1 2 3] by (elim exE conjE)
  then show ?thesis
    using new len by (intro conjI exI [of _ L0] exI [of _ L] exI [of _ k] exI [of _ L'] exI [of _ a])
      (simp_all add: numeral_2_eq_2)
qed

text \<open>
  C6 (what the code does). \<^verbatim>\<open>GLayerConvolutional1D::countWeights\<close> returns
  \<open>(kernelCount + 1) * kernelSize\<close>, not \<open>kernelCount * kernelSize + kernelCount\<close>: the layer of
  C8 (1 kernel of width 3) reports 6 where it has 4 weights, and \<^verbatim>\<open>weightsToVector\<close> writes
  4 doubles and returns 6; a layer with 4 kernels of width 2 reports 10, and
  \<^verbatim>\<open>weightsToVector\<close> writes 12 doubles and returns 10.
\<close>

theorem GLayerConvolutional1D_countWeights_mismatch:
  "(\<exists>L w. GLayerConvolutional1D_new 10 1 3 1 = Inr L
       \<and> GMatrix_rows (c1_kernels L) = 1 \<and> GMatrix_cols (c1_kernels L) = 3
       \<and> GLayerConvolutional1D_countWeights L = 6
       \<and> GLayerConvolutional1D_weightsToVector L = Inr (w, 6) \<and> length w = 4)
   \<and> (\<exists>L w. GLayerConvolutional1D_new 4 2 2 2 = Inr L
       \<and> GMatrix_rows (c1_kernels L) = 4 \<and> GMatrix_cols (c1_kernels L) = 2
       \<and> GLayerConvolutional1D_countWeights L = 10
       \<and> GLayerConvolutional1D_weightsToVector L = Inr (w, 10) \<and> length w = 12)"
  by (simp add: GLayerConvolutional1D_new_def GLayerConvolutional1D_countWeights_def
      GLayerConvolutional1D_weightsToVector_def GMatrix_toVector_def GMatrix_resize_def
      GMatrix_rows_def GMatrix_cols_def length_concat sum_list_replicate)

text \<open>
  C2 (what the code does). \<^verbatim>\<open>GLayerAdditionPooling::backPropError\<close> adds the upstream
  activation of the sibling input to the error: with one output unit whose error is 1 and
  the upstream activation \<open>[2, 3]\<close>, the upstream error becomes \<open>[1 + 3, 1 + 2]\<close>, not \<open>[1, 1]\<close>.
\<close>

theorem GLayerAdditionPooling_backPropError_adds_activation:
  "GLayerAdditionPooling_backPropError \<lparr>ap_activation = \<lparr>m_cols = 1, m_rows = [[0], [1]]\<rparr>\<rparr>
     [2, 3] [0, 0] = Inr [4, 3]"
  by (simp add: GLayerAdditionPooling_backPropError_def GLayerAdditionPooling_outputs_def
      GMatrix_cols_def GMatrix_row_def GVec_get_def GVec_set_def)

text \<open>
  C3 (what the code does). \<^verbatim>\<open>GLayerMaxOut::feedForward\<close> takes no generator and draws from
  \<^verbatim>\<open>rand()\<close>: two runs on the same layer (same weights, biases and buffers) and the same
  input \<open>[1, 0]\<close> end with different activations and different winners when the hidden
  state of \<^verbatim>\<open>rand()\<close> differs. A state whose next values are 0 and 1 triggers the exploration
  override and picks input 1; a state whose next value is 1 keeps the maximum, input 0.
\<close>

theorem GLayerMaxOut_feedForward_depends_on_rand:
  "map_sum id fst (GLayerMaxOut_feedForward [1, 0] GLayerMaxOut_example (\<lambda>k. k))
     = Inr (GLayerMaxOut_example\<lparr>mo_activation := \<lparr>m_cols = 1, m_rows = [[0], [0]]\<rparr>,
                                 mo_winners := [1]\<rparr>)
   \<and> map_sum id fst (GLayerMaxOut_feedForward [1, 0] GLayerMaxOut_example (\<lambda>k. 1))
     = Inr (GLayerMaxOut_example\<lparr>mo_activation := \<lparr>m_cols = 1, m_rows = [[1], [0]]\<rparr>,
                                 mo_winners := [0]\<rparr>)"
  by (simp add: maxout_defs upt_rec numeral_2_eq_2)

text \<open>
  C7 (what the code does). On the 4-by-4 single-channel input of the scenario, with region
  size 2 (the constructor leaves \<^verbatim>\<open>m_regionSize\<close> indeterminate; it is taken to be 2, the
  value asked for), \<^verbatim>\<open>GMaxPooling2D::feedForward\<close> yields \<open>[2, 6, 10, 14]\<close>, the maxima of the
  first row of every block, not \<open>[4, 8, 12, 16]\<close>. \<^verbatim>\<open>backPropError\<close> with the errors
  \<open>[10, 20, 30, 40]\<close> writes them to the positions 1, 3, 9 and 11, zeroes the other position
  of the first row of every block, and leaves the second row of every block as it was (7
  here).
\<close>

theorem GMaxPooling2D_scenario_first_row_only:
  "\<exists>L. GMaxPooling2D_new 4 4 1 2 2 = Inr L
     \<and> GMaxPooling2D_feedForward [1, 2, 5, 6, 3, 4, 7, 8, 9, 10, 13, 14, 11, 12, 15, 16] L
         = Some (Inr (L\<lparr>mp_activation := \<lparr>m_cols = 4, m_rows = [[2, 6, 10, 14], [0, 0, 0, 0]]\<rparr>\<rparr>))
     \<and> GMaxPooling2D_backPropError
           (L\<lparr>mp_activation := \<lparr>m_cols = 4, m_rows = [[2, 6, 10, 14], [10, 20, 30, 40]]\<rparr>\<rparr>)
           [1, 2, 5, 6, 3, 4, 7, 8, 9, 10, 13, 14, 11, 12, 15, 16]
           [7, 7, 7, 7, 7, 7, 7, 7, 7, 7, 7, 7, 7, 7, 7, 7]
         = Some (Inr [0, 10, 0, 20, 7, 7, 7, 7, 0, 30, 0, 40, 7, 7, 7, 7])"
  by (simp add: maxpool_defs for_step.simps Let_def replicate_2 replicate_4)

text \<open>
  C10 (what the code does). A \<^verbatim>\<open>GMaxPooling2D\<close> constructed from the serialized document of a
  4-by-4 single-channel layer with region size 2 reports \<open>outputs() = 4\<close>, while its
  \<^verbatim>\<open>m_activation\<close> has no row and no column: \<^verbatim>\<open>activation()\<close> and \<^verbatim>\<open>error()\<close> refer to rows
  that do not exist.
\<close>

theorem GMaxPooling2D_deserialize_no_buffers:
  "\<exists>L. GMaxPooling2D_deserialize
          (DomObj [(''type'', DomInt 19), (''icol'', DomInt 4), (''irow'', DomInt 4),
                   (''ichan'', DomInt 1), (''size'', DomInt 2)]) = Inr L
     \<and> GMaxPooling2D_outputs L = Inr 4
     \<and> GMatrix_rows (mp_activation L) = 0 \<and> GMatrix_cols (mp_activation L) = 0
     \<and> GMaxPooling2D_activation L = Inl OutOfRange
     \<and> GMaxPooling2D_error L = Inl OutOfRange"
  by (simp add: GMaxPooling2D_deserialize_def GDomNode_size_t_def GDomNode_field_def
      GDomNode_asInt_def GMaxPooling2D_outputs_def GMaxPooling2D_activation_def
      GMaxPooling2D_error_def GMatrix_default_def GMatrix_rows_def GMatrix_cols_def
      GMatrix_row_def)

text \<open>
  C4 (as amended). \<^verbatim>\<open>vectorToWeights\<close> applied to what \<^verbatim>\<open>weightsToVector\<close> wrote leaves the
  layer as it was, for a well-formed \<^verbatim>\<open>GLayerLinear\<close>, \<^verbatim>\<open>GLayerMaxOut\<close>,
  \<^verbatim>\<open>GLayerConvolutional1D\<close> and \<^verbatim>\<open>GLayerConvolutional2D\<close>. \<^verbatim>\<open>deserialize(serialize(L))\<close> succeeds
  and gives a layer of the same class with the same \<^verbatim>\<open>inputs()\<close>, \<^verbatim>\<open>outputs()\<close> and weight
  values for a \<^verbatim>\<open>GLayerLinear\<close>, \<^verbatim>\<open>GLayerRestrictedBoltzmannMachine\<close>, \<^verbatim>\<open>GLayerConvolutional1D\<close>
  and \<^verbatim>\<open>GLayerConvolutional2D\<close>. \<^verbatim>\<open>GLayerMaxOut::serialize\<close> throws "Sorry, not implemented
  yet": a maxout layer has no document.
\<close>

theorem weights_round_trip_through_vector_and_document:
  "(GLayerLinear_wf L1 \<longrightarrow>
      GLayerLinear_vectorToWeights (fst (GLayerLinear_weightsToVector L1)) L1
        = Inr (L1, snd (GLayerLinear_weightsToVector L1))
      \<and> (\<exists>L'. bind_result (GNeuralNetLayer_serialize (Layer_Linear L1)) GNeuralNetLayer_deserialize
              = Inr (Layer_Linear L')
            \<and> GLayerLinear_inputs L' = GLayerLinear_inputs L1
            \<and> GLayerLinear_outputs L' = GLayerLinear_outputs L1
            \<and> lin_weights L' = lin_weights L1))
   \<and> (GLayerMaxOut_wf L2 \<longrightarrow>
      (\<exists>v k. GLayerMaxOut_weightsToVector L2 = Inr (v, k)
            \<and> GLayerMaxOut_vectorToWeights v L2 = Inr (L2, k)))
   \<and> GNeuralNetLayer_serialize (Layer_MaxOut L2) = Inl (Ex_thrown ''Sorry, not implemented yet'')
   \<and> (GLayerConvolutional1D_wf L3 \<longrightarrow>
      (\<exists>v k. GLayerConvolutional1D_weightsToVector L3 = Inr (v, k)
            \<and> GLayerConvolutional1D_vectorToWeights v L3 = Inr (L3, k))
      \<and> bind_result (GNeuralNetLayer_serialize (Layer_Convolutional1D L3)) GNeuralNetLayer_deserialize
           = Inr (Layer_Convolutional1D L3))
   \<and> (GLayerRestrictedBoltzmannMachine_wf L4 \<longrightarrow>
      (\<exists>L' b br. bind_result (GNeuralNetLayer_serialize (Layer_RestrictedBoltzmannMachine L4))
                GNeuralNetLayer_deserialize = Inr (Layer_RestrictedBoltzmannMachine L')
            \<and> GLayerRestrictedBoltzmannMachine_inputs L' = GLayerRestrictedBoltzmannMachine_inputs L4
            \<and> GLayerRestrictedBoltzmannMachine_outputs L' = GLayerRestrictedBoltzmannMachine_outputs L4
            \<and> rbm_weights L' = rbm_weights L4
            \<and> GLayerRestrictedBoltzmannMachine_bias L4 = Inr b
            \<and> GLayerRestrictedBoltzmannMachine_bias L' = Inr b
            \<and> GLayerRestrictedBoltzmannMachine_biasReverse L4 = Inr br
            \<and> GLayerRestrictedBoltzmannMachine_biasReverse L' = Inr br))
   \<and> (GLayerConvolutional2D_wf L5 \<longrightarrow>
      (\<exists>v k. GLayerConvolutional2D_weightsToVector L5 = Inr (v, k)
            \<and> GLayerConvolutional2D_vectorToWeights v L5 = Inr (L5, k))
      \<and> (\<exists>L'. bind_result (GNeuralNetLayer_serialize (Layer_Convolutional2D L5))
                GNeuralNetLayer_deserialize = Inr (Layer_Convolutional2D L')
            \<and> GLayerConvolutional2D_inputs L' = GLayerConvolutional2D_inputs L5
            \<and> GLayerConvolutional2D_outputs L' = GLayerConvolutional2D_outputs L5
            \<and> c2_kernels L' = c2_kernels L5 \<and> c2_bias L' = c2_bias L5))"
proof (intro conjI impI)
  assume wf: "GLayerLinear_wf L1"
  show "GLayerLinear_vectorToWeights (fst (GLayerLinear_weightsToVector L1)) L1
        = Inr (L1, snd (GLayerLinear_weightsToVector L1))"
    by (rule GLayerLinear_vector_round_trip [OF wf])
  show "\<exists>L'. bind_result (GNeuralNetLayer_serialize (Layer_Linear L1)) GNeuralNetLayer_deserialize
              = Inr (Layer_Linear L')
            \<and> GLayerLinear_inputs L' = GLayerLinear_inputs L1
            \<and> GLayerLinear_outputs L' = GLayerLinear_outputs L1
            \<and> lin_weights L' = lin_weights L1"
    by (simp add: GLayerLinear_document_round_trip GLayerLinear_inputs_def
        GLayerLinear_outputs_def)
next
  assume "GLayerMaxOut_wf L2"
  then show "\<exists>v k. GLayerMaxOut_weightsToVector L2 = Inr (v, k)
            \<and> GLayerMaxOut_vectorToWeights v L2 = Inr (L2, k)"
    by (rule GLayerMaxOut_vector_round_trip)
next
  show "GNeuralNetLayer_serialize (Layer_MaxOut L2) = Inl (Ex_thrown ''Sorry, not implemented yet'')"
    by (simp add: GLayerMaxOut_serialize_def)
next
  assume wf: "GLayerConvolutional1D_wf L3"
  show "\<exists>v k. GLayerConvolutional1D_weightsToVector L3 = Inr (v, k)
            \<and> GLayerConvolutional1D_vectorToWeights v L3 = Inr (L3, k)"
    by (rule GLayerConvolutional1D_vector_round_trip [OF wf])
  show "bind_result (GNeuralNetLayer_serialize (Layer_Convolutional1D L3)) GNeuralNetLayer_deserialize
           = Inr (Layer_Convolutional1D L3)"
    by (simp add: GLayerConvolutional1D_document_round_trip [OF wf])
next
  assume wf: "GLayerRestrictedBoltzmannMachine_wf L4"
  from GLayerRestrictedBoltzmannMachine_document_round_trip [OF wf]
  obtain node L' b br where
    "GNeuralNetLayer_serialize (Layer_RestrictedBoltzmannMachine L4) = Inr node"
    "GNeuralNetLayer_deserialize node = Inr (Layer_RestrictedBoltzmannMachine L')"
    "rbm_weights L' = rbm_weights L4"
    "GLayerRestrictedBoltzmannMachine_bias L4 = Inr b"
    "GLayerRestrictedBoltzmannMachine_bias L' = Inr b"
    "GLayerRestrictedBoltzmannMachine_biasReverse L4 = Inr br"
    "GLayerRestrictedBoltzmannMachine_biasReverse L' = Inr br"
    "GLayerRestrictedBoltzmannMachine_inputs L' = GLayerRestrictedBoltzmannMachine_inputs L4"
    "GLayerRestrictedBoltzmannMachine_outputs L' = GLayerRestrictedBoltzmannMachine_outputs L4"
    by (elim exE conjE)
  then show "\<exists>L' b br. bind_result (GNeuralNetLayer_serialize (Layer_RestrictedBoltzmannMachine L4))
                GNeuralNetLayer_deserialize = Inr (Layer_RestrictedBoltzmannMachine L')
            \<and> GLayerRestrictedBoltzmannMachine_inputs L' = GLayerRestrictedBoltzmannMachine_inputs L4
            \<and> GLayerRestrictedBoltzmannMachine_outputs L' = GLayerRestrictedBoltzmannMachine_outputs L4
            \<and> rbm_weights L' = rbm_weights L4
            \<and> GLayerRestrictedBoltzmannMachine_bias L4 = Inr b
            \<and> GLayerRestrictedBoltzmannMachine_bias L' = Inr b
            \<and> GLayerRestrictedBoltzmannMachine_biasReverse L4 = Inr br
            \<and> GLayerRestrictedBoltzmannMachine_biasReverse L' = Inr br"
    by (intro exI [of _ L'] exI [of _ b] exI [of _ br]) simp
next
  assume wf: "GLayerConvolutional2D_wf L5"
  show "\<exists>v k. GLayerConvolutional2D_weightsToVector L5 = Inr (v, k)
            \<and> GLayerConvolutional2D_vectorToWeights v L5 = Inr (L5, k)"
    by (rule GLayerConvolutional2D_vector_round_trip [OF wf])
  show "\<exists>L'. bind_result (GNeuralNetLayer_serialize (Layer_Convolutional2D L5))
                GNeuralNetLayer_deserialize = Inr (Layer_Convolutional2D L')
            \<and> GLayerConvolutional2D_inputs L' = GLayerConvolutional2D_inputs L5
            \<and> GLayerConvolutional2D_outputs L' = GLayerConvolutional2D_outputs L5
            \<and> c2_kernels L' = c2_kernels L5 \<and> c2_bias L' = c2_bias L5"
    by (simp add: GLayerConvolutional2D_document_round_trip [OF wf]
        GLayerConvolutional2D_inputs_def GLayerConvolutional2D_outputs_def)
qed

theorem weights_round_trip_through_vector_and_document_witness:
  "GLayerLinear_wf GLayerLinear_example
   \<and> GLayerLinear_vectorToWeights (fst (GLayerLinear_weightsToVector GLayerLinear_example))
         GLayerLinear_example
       = Inr (GLayerLinear_example, snd (GLayerLinear_weightsToVector GLayerLinear_example))
   \<and> (\<exists>L'. bind_result (GNeuralNetLayer_serialize (Layer_Linear GLayerLinear_example))
              GNeuralNetLayer_deserialize = Inr (Layer_Linear L')
         \<and> GLayerLinear_inputs L' = GLayerLinear_inputs GLayerLinear_example
         \<and> GLayerLinear_outputs L' = GLayerLinear_outputs GLayerLinear_example
         \<and> lin_weights L' = lin_weights GLayerLinear_example)
   \<and> GLayerMaxOut_wf GLayerMaxOut_example
   \<and> (\<exists>v k. GLayerMaxOut_weightsToVector GLayerMaxOut_example = Inr (v, k)
         \<and> GLayerMaxOut_vectorToWeights v GLayerMaxOut_example = Inr (GLayerMaxOut_example, k))
   \<and> GLayerConvolutional1D_wf GLayerConvolutional1D_example
   \<and> (\<exists>v k. GLayerConvolutional1D_weightsToVector GLayerConvolutional1D_example = Inr (v, k)
         \<and> GLayerConvolutional1D_vectorToWeights v GLayerConvolutional1D_example
           = Inr (GLayerConvolutional1D_example, k))
   \<and> bind_result (GNeuralNetLayer_serialize (Layer_Convolutional1D GLayerConvolutional1D_example))
         GNeuralNetLayer_deserialize = Inr (Layer_Convolutional1D GLayerConvolutional1D_example)
   \<and> GLayerRestrictedBoltzmannMachine_wf GLayerRestrictedBoltzmannMachine_example
   \<and> (\<exists>L'. bind_result
           (GNeuralNetLayer_serialize
              (Layer_RestrictedBoltzmannMachine GLayerRestrictedBoltzmannMachine_example))
           GNeuralNetLayer_deserialize = Inr (Layer_RestrictedBoltzmannMachine L')
         \<and> rbm_weights L' = rbm_weights GLayerRestrictedBoltzmannMachine_example)
   \<and> GLayerConvolutional2D_wf GLayerConvolutional2D_example
   \<and> (\<exists>v k. GLayerConvolutional2D_weightsToVector GLayerConvolutional2D_example = Inr (v, k)
         \<and> GLayerConvolutional2D_vectorToWeights v GLayerConvolutional2D_example
           = Inr (GLayerConvolutional2D_example, k))
   \<and> (\<exists>L'. bind_result
           (GNeuralNetLayer_serialize (Layer_Convolutional2D GLayerConvolutional2D_example))
           GNeuralNetLayer_deserialize = Inr (Layer_Convolutional2D L')
         \<and> c2_kernels L' = c2_kernels GLayerConvolutional2D_example
         \<and> c2_bias L' = c2_bias GLayerConvolutional2D_example)"
proof -
  have wf1: "GLayerLinear_wf GLayerLinear_example"
    by (simp add: GLayerLinear_example_def GLayerLinear_wf_def GMatrix_wf_def GMatrix_rows_def
        GMatrix_cols_def)
  have wf2: "GLayerMaxOut_wf GLayerMaxOut_example"
    by (simp add: GLayerMaxOut_example_def GLayerMaxOut_wf_def GMatrix_wf_def GMatrix_rows_def
        GMatrix_cols_def)
  have wf3: "GLayerConvolutional1D_wf GLayerConvolutional1D_example"
    by (simp add: GLayerConvolutional1D_example_def GLayerConvolutional1D_wf_def GMatrix_wf_def
        GMatrix_rows_def size_t_ok_def)
  have wf4: "GLayerRestrictedBoltzmannMachine_wf GLayerRestrictedBoltzmannMachine_example"
    by (simp add: GLayerRestrictedBoltzmannMachine_example_def
        GLayerRestrictedBoltzmannMachine_wf_def GMatrix_rows_def)
  have wf5: "GLayerConvolutional2D_wf GLayerConvolutional2D_example"
    by (simp add: GLayerConvolutional2D_example_def GLayerConvolutional2D_wf_def GMatrix_wf_def
        GMatrix_rows_def GMatrix_cols_def size_t_ok_def)
  note T = weights_round_trip_through_vector_and_document
    [of GLayerLinear_example GLayerMaxOut_example GLayerConvolutional1D_example
      GLayerRestrictedBoltzmannMachine_example GLayerConvolutional2D_example]
  note linear = T [THEN conjunct1, THEN mp, OF wf1]
  note maxout = T [THEN conjunct2, THEN conjunct1, THEN mp, OF wf2]
  note conv1d = T [THEN conjunct2, THEN conjunct2, THEN conjunct2, THEN conjunct1, THEN mp, OF wf3]
  note rbm = T [THEN conjunct2, THEN conjunct2, THEN conjunct2, THEN conjunct2, THEN conjunct1,
      THEN mp, OF wf4]
  note conv2d = T [THEN conjunct2, THEN conjunct2, THEN conjunct2, THEN conjunct2, THEN conjunct2,
      THEN mp, OF wf5]
  have rbm': "\<exists>L'. bind_result
           (GNeuralNetLayer_serialize
              (Layer_RestrictedBoltzmannMachine GLayerRestrictedBoltzmannMachine_example))
           GNeuralNetLayer_deserialize = Inr (Layer_RestrictedBoltzmannMachine L')
         \<and> rbm_weights L' = rbm_weights GLayerRestrictedBoltzmannMachine_example"
    using rbm by blast
  have conv2d': "\<exists>L'. bind_result
           (GNeuralNetLayer_serialize (Layer_Convolutional2D GLayerConvolutional2D_example))
           GNeuralNetLayer_deserialize = Inr (Layer_Convolutional2D L')
         \<and> c2_kernels L' = c2_kernels GLayerConvolutional2D_example
         \<and> c2_bias L' = c2_bias GLayerConvolutional2D_example"
    using conv2d [THEN conjunct2] by blast
  show ?thesis
    by (intro conjI wf1 wf2 wf3 wf4 wf5 linear [THEN conjunct1] linear [THEN conjunct2] maxout
        conv1d [THEN conjunct1] conv1d [THEN conjunct2] rbm' conv2d [THEN conjunct1] conv2d')
qed

text \<open>
  C4 as stated fails for the maxout layer, a layer kind with weights: serializing a
  well-formed one throws, so \<^verbatim>\<open>deserialize(serialize(L))\<close> does not succeed.
\<close>

theorem GLayerMaxOut_document_counterexample:
  "GLayerMaxOut_wf GLayerMaxOut_example
   \<and> bind_result (GNeuralNetLayer_serialize (Layer_MaxOut GLayerMaxOut_example))
         GNeuralNetLayer_deserialize = Inl (Ex_thrown ''Sorry, not implemented yet'')"
  by (simp add: GLayerMaxOut_example_def GLayerMaxOut_wf_def GMatrix_wf_def GMatrix_rows_def
      GMatrix_cols_def GLayerMaxOut_serialize_def)

end
